theory Spec2Isabelle
  imports Main "HOL-Library.Word"
begin

unbundle bit_operations_syntax

section \<open>Machine types and configuration constants\<close>

text \<open>
  The firmware targets an Arduino Nano (AVR): \<open>byte\<close> is 8 bits, \<open>unsigned int\<close>
  and \<open>size_t\<close> are 16 bits, \<open>unsigned long\<close> is 32 bits; unsigned arithmetic wraps.
\<close>

type_synonym u8 = "8 word"
type_synonym u16 = "16 word"
type_synonym u32 = "32 word"

text \<open>config.h\<close>

definition NR_OF_EFFECTS :: nat where "NR_OF_EFFECTS = 13"
definition NR_OF_MULT_FACTORS :: nat where "NR_OF_MULT_FACTORS = 16"
definition NR_OF_CYCLES :: u8 where "NR_OF_CYCLES = 3"
definition DELAY_TIME_MIN :: u8 where "DELAY_TIME_MIN = 7"
definition EXT_CLOCK_TIMEOUT :: u32 where "EXT_CLOCK_TIMEOUT = 2000000"
definition DELAY_TIME_BEFORE_WRITING_TO_EEPROM_IN_MS :: u32 where
  "DELAY_TIME_BEFORE_WRITING_TO_EEPROM_IN_MS = 10000"
definition LED_DELAY :: u16 where "LED_DELAY = 1000"

definition DECELERATOR :: u8 where "DECELERATOR = 0"
definition SHORT_DELAY :: u8 where "SHORT_DELAY = 1"
definition CHORUS :: u8 where "CHORUS = 6"
definition FAST_CHORUS :: u8 where "FAST_CHORUS = 7"
definition REVERB :: u8 where "REVERB = 8"
definition WOW_NOT_FLUTTER :: u8 where "WOW_NOT_FLUTTER = 9"
definition TELEGRAPH :: u8 where "TELEGRAPH = 10"
definition TELEVERB :: u8 where "TELEVERB = 11"
definition PSYCHO :: u8 where "PSYCHO = 12"

text \<open>\<open>LEFT\<close> is \<open>-1\<close> stored in the \<open>byte\<close> variable \<open>countDirection\<close>, i.e. 255.\<close>

definition LEFT :: u8 where "LEFT = 255"
definition RIGHT :: u8 where "RIGHT = 1"

section \<open>The settings struct (main.h)\<close>

text \<open>
  \<open>SettingsObjType\<close>: two byte arrays of \<open>NR_OF_EFFECTS\<close> entries, a bool and the
  active effect, an \<open>int8_t\<close> (kept as its 8-bit pattern, read with \<open>sint\<close>).
  All members are one byte wide, so the struct is stored without padding:
  13 + 1 + 1 + 13 = 28 bytes.
\<close>

record SettingsObjType =
  delayTime :: "u8 list"
  isWetAndDrySelected :: bool
  effect :: u8
  baseFactorIndex :: "u8 list"

definition SIZE_OF_SETTINGS_STRUCT :: u16 where "SIZE_OF_SETTINGS_STRUCT = 28"

definition valid_layout :: "SettingsObjType \<Rightarrow> bool" where
  "valid_layout S = (length (delayTime S) = NR_OF_EFFECTS \<and> length (baseFactorIndex S) = NR_OF_EFFECTS)"

text \<open>The bytes \<open>EEPROM.put\<close> stores for a settings struct, and the struct \<open>EEPROM.get\<close>
  rebuilds from 28 bytes.\<close>

definition settings_bytes :: "SettingsObjType \<Rightarrow> u8 list" where
  "settings_bytes S =
     delayTime S @ [if isWetAndDrySelected S then 1 else 0] @ [effect S] @ baseFactorIndex S"

definition settings_of_bytes :: "u8 list \<Rightarrow> SettingsObjType" where
  "settings_of_bytes bs =
     \<lparr> delayTime = take 13 bs,
       isWetAndDrySelected = (bs ! 13 \<noteq> 0),
       effect = bs ! 14,
       baseFactorIndex = take 13 (drop 15 bs) \<rparr>"

section \<open>The EEPROM device\<close>

text \<open>
  The EEPROM is a byte store. \<open>EEPROM.put(a, v)\<close> stores the bytes of \<open>v\<close> from address
  \<open>a\<close> upwards and \<open>EEPROM.get(a, v)\<close> reads them back; an \<open>unsigned long\<close> is four
  bytes, least significant first.
\<close>

type_synonym eeprom_mem = "nat \<Rightarrow> u8"

definition ulong_bytes :: "u32 \<Rightarrow> u8 list" where
  "ulong_bytes v = [ucast v, ucast (drop_bit 8 v), ucast (drop_bit 16 v), ucast (drop_bit 24 v)]"

definition bytes_ulong :: "u8 \<Rightarrow> u8 \<Rightarrow> u8 \<Rightarrow> u8 \<Rightarrow> u32" where
  "bytes_ulong b0 b1 b2 b3 =
     ucast b0 OR push_bit 8 (ucast b1) OR push_bit 16 (ucast b2) OR push_bit 24 (ucast b3)"

fun EEPROM_put_bytes :: "eeprom_mem \<Rightarrow> nat \<Rightarrow> u8 list \<Rightarrow> eeprom_mem" where
  "EEPROM_put_bytes m a [] = m"
| "EEPROM_put_bytes m a (b # bs) = EEPROM_put_bytes (m(a := b)) (Suc a) bs"

definition EEPROM_get_bytes :: "eeprom_mem \<Rightarrow> nat \<Rightarrow> nat \<Rightarrow> u8 list" where
  "EEPROM_get_bytes m a n = map (\<lambda>i. m (a + i)) [0..<n]"

definition EEPROM_put_ulong :: "eeprom_mem \<Rightarrow> nat \<Rightarrow> u32 \<Rightarrow> eeprom_mem" where
  "EEPROM_put_ulong m a v = EEPROM_put_bytes m a (ulong_bytes v)"

definition EEPROM_get_ulong :: "eeprom_mem \<Rightarrow> nat \<Rightarrow> u32" where
  "EEPROM_get_ulong m a = bytes_ulong (m a) (m (a + 1)) (m (a + 2)) (m (a + 3))"

section \<open>The wear-levelling store (class Eeprom)\<close>

definition DATA_MARKER :: u32 where "DATA_MARKER = 0x66666666"
definition ERASE_MARKER :: u32 where "ERASE_MARKER = 0x33333333"
definition EMPTY_MARKER :: u32 where "EMPTY_MARKER = 0x22222222"
definition SIZE_OF_DATA_MARKER :: u16 where "SIZE_OF_DATA_MARKER = 4"

text \<open>
  The members of the class. \<open>eeprom_dataItem\<close> is a scratch member that every
  method assigns from \<open>EEPROM.get\<close> before comparing it; it is a local of the
  functions below. The record size \<open>sz\<close> (\<open>SIZE_OF_SETTINGS_STRUCT\<close>, a
  compile-time \<open>sizeof\<close>) is a parameter of every method.
\<close>

record Eeprom =
  eeprom_currentAddress :: u16
  eeprom_sizeInBytes :: u16
  blocked :: bool

definition eraseMarkerByte :: "eeprom_mem \<Rightarrow> Eeprom \<Rightarrow> eeprom_mem" where
  "eraseMarkerByte m e = EEPROM_put_ulong m (unat (eeprom_currentAddress e)) ERASE_MARKER"

text \<open>
  The scan of \<open>init\<close>: \<open>for (a = 0; a < bound; a += 4)\<close>, returning at the first
  address that holds \<open>DATA_MARKER\<close>. The bound is \<open>eeprom_sizeInBytes - sz\<close> with
  \<open>sz\<close> a positive multiple of 4, hence at most 65531, so the 16-bit counter never wraps.
\<close>

function scan_marker :: "eeprom_mem \<Rightarrow> nat \<Rightarrow> nat \<Rightarrow> nat option" where
  "scan_marker m bound a =
     (if a < bound
      then (if EEPROM_get_ulong m a = DATA_MARKER then Some a
            else scan_marker m bound (a + 4))
      else None)"
  by pat_completeness auto
termination
  by (relation "measure (\<lambda>(m, bound, a). bound - a)") auto

declare scan_marker.simps [simp del]

definition Eeprom_init :: "u16 \<Rightarrow> eeprom_mem \<Rightarrow> Eeprom \<Rightarrow> eeprom_mem \<times> Eeprom" where
  "Eeprom_init sz m e =
     (if sz mod SIZE_OF_DATA_MARKER \<noteq> 0 then (m, e\<lparr>blocked := True\<rparr>)
      else if sz + SIZE_OF_DATA_MARKER > eeprom_sizeInBytes e
        then (m, e\<lparr>eeprom_currentAddress := 0\<rparr>)
      else (case scan_marker m (unat (eeprom_sizeInBytes e - sz)) 0 of
              Some a \<Rightarrow> (m, e\<lparr>eeprom_currentAddress := of_nat a\<rparr>)
            | None \<Rightarrow> (EEPROM_put_ulong m 0 EMPTY_MARKER, e\<lparr>eeprom_currentAddress := 0\<rparr>)))"

text \<open>The constructor \<open>Eeprom(length)\<close>.\<close>

definition Eeprom_new :: "u16 \<Rightarrow> eeprom_mem \<Rightarrow> u16 \<Rightarrow> eeprom_mem \<times> Eeprom" where
  "Eeprom_new sz m len =
     Eeprom_init sz m \<lparr>eeprom_currentAddress = 0, eeprom_sizeInBytes = len, blocked = False\<rparr>"

text \<open>
  \<open>write\<close> returns the memory, the object and the \<open>long\<close> result
  (\<open>-1\<close> when blocked, else marker size plus record size).
\<close>

definition Eeprom_write :: "u16 \<Rightarrow> u8 list \<Rightarrow> eeprom_mem \<Rightarrow> Eeprom \<Rightarrow> (eeprom_mem \<times> Eeprom) \<times> int" where
  "Eeprom_write sz settings m e =
     (if blocked e then ((m, e), - 1)
      else
        let eeprom_dataItem = EEPROM_get_ulong m (unat (eeprom_currentAddress e));
            m1 = eraseMarkerByte m e
        in if eeprom_dataItem = EMPTY_MARKER then
             let m2 = EEPROM_put_ulong m1 (unat (eeprom_currentAddress e)) DATA_MARKER;
                 m3 = EEPROM_put_bytes m2 (unat (eeprom_currentAddress e + SIZE_OF_DATA_MARKER)) settings
             in ((m3, e), uint (sz + SIZE_OF_DATA_MARKER))
           else
             let tmpAddress = eeprom_currentAddress e + sz + SIZE_OF_DATA_MARKER;
                 e' = (if tmpAddress > eeprom_sizeInBytes e - 1
                       then e\<lparr>eeprom_currentAddress := 0\<rparr>
                       else e\<lparr>eeprom_currentAddress := tmpAddress\<rparr>);
                 m2 = EEPROM_put_ulong m1 (unat (eeprom_currentAddress e')) DATA_MARKER;
                 m3 = EEPROM_put_bytes m2 (unat (eeprom_currentAddress e' + SIZE_OF_DATA_MARKER)) settings
             in ((m3, e'), uint (sz + SIZE_OF_DATA_MARKER)))"

text \<open>
  \<open>read(p)\<close> returns the \<open>long\<close> result and the bytes it stored into \<open>*p\<close>:
  \<open>None\<close> when it returns \<open>-1\<close>, which leaves \<open>*p\<close> as the caller had it.
\<close>

definition Eeprom_read :: "u16 \<Rightarrow> eeprom_mem \<Rightarrow> Eeprom \<Rightarrow> int \<times> u8 list option" where
  "Eeprom_read sz m e =
     (if blocked e then (- 1, None)
      else if eeprom_currentAddress e + sz > eeprom_sizeInBytes e then (- 1, None)
      else if EEPROM_get_ulong m (unat (eeprom_currentAddress e)) = DATA_MARKER
        then (uint sz,
              Some (EEPROM_get_bytes m (unat (eeprom_currentAddress e + SIZE_OF_DATA_MARKER)) (unat sz)))
      else (- 1, None))"

text \<open>A sequence of \<open>write\<close> calls, one per record of the list.\<close>

fun write_all :: "u16 \<Rightarrow> u8 list list \<Rightarrow> eeprom_mem \<times> Eeprom \<Rightarrow> eeprom_mem \<times> Eeprom" where
  "write_all sz [] st = st"
| "write_all sz (r # rs) st = write_all sz rs (fst (Eeprom_write sz r (fst st) (snd st)))"

text \<open>
  The EEPROM stores of one \<open>write\<close> call, in the order the method issues them, each
  as the address and the bytes of its \<open>EEPROM.put\<close>: \<open>eraseMarkerByte()\<close> first, then the
  new marker at the (possibly advanced) cursor, then the record behind it. A blocked store
  issues none. \<open>apply_stores\<close> carries out a list of stores; a prefix of the list is the
  memory of an execution that stops after that many stores.
\<close>

definition Eeprom_write_stores :: "u16 \<Rightarrow> u8 list \<Rightarrow> eeprom_mem \<Rightarrow> Eeprom \<Rightarrow> (nat \<times> u8 list) list" where
  "Eeprom_write_stores sz settings m e =
     (if blocked e then []
      else
        let eeprom_dataItem = EEPROM_get_ulong m (unat (eeprom_currentAddress e));
            erase = (unat (eeprom_currentAddress e), ulong_bytes ERASE_MARKER)
        in if eeprom_dataItem = EMPTY_MARKER then
             [erase,
              (unat (eeprom_currentAddress e), ulong_bytes DATA_MARKER),
              (unat (eeprom_currentAddress e + SIZE_OF_DATA_MARKER), settings)]
           else
             let tmpAddress = eeprom_currentAddress e + sz + SIZE_OF_DATA_MARKER;
                 a = (if tmpAddress > eeprom_sizeInBytes e - 1 then 0 else tmpAddress)
             in [erase,
                 (unat a, ulong_bytes DATA_MARKER),
                 (unat (a + SIZE_OF_DATA_MARKER), settings)])"

fun apply_stores :: "eeprom_mem \<Rightarrow> (nat \<times> u8 list) list \<Rightarrow> eeprom_mem" where
  "apply_stores m [] = m"
| "apply_stores m (s # ss) = apply_stores (EEPROM_put_bytes m (fst s) (snd s)) ss"

section \<open>The controller (main program)\<close>

text \<open>
  The globals of the main program that the interrupt handlers and the main loop share.
  Display, pin and screen-saver state is left out: no function below reads it.
\<close>

datatype rotation = DIR_NONE | DIR_CW | DIR_CCW

record controller =
  settings :: SettingsObjType
  delayTimeMax :: "u8 list"
  oldDelayTime :: "u8 list"
  coarseDelayTime :: u8
  oldEffect :: u8
  countDirection :: u8
  inSelectMode :: bool
  useSymbolicTimeString :: bool
  fineTuneDelayTime :: bool
  writeToEeprom :: bool
  writeTimer :: u32
  oldTime :: u32
  thisTime :: u32
  sumTime :: u32
  cycleTime :: u32
  irqCounter :: u8
  ledDelay :: u16

text \<open>
  Indexing an array outside its bounds is undefined behaviour; the handlers below return
  \<open>None\<close> where the source indexes out of bounds. \<open>effect_index\<close> is \<open>settings.effect\<close>
  (an \<open>int8_t\<close>) as an index into the arrays of \<open>NR_OF_EFFECTS\<close> entries.
\<close>

definition effect_index :: "SettingsObjType \<Rightarrow> nat option" where
  "effect_index S =
     (if 0 \<le> sint (effect S) \<and> sint (effect S) < int NR_OF_EFFECTS
      then Some (nat (sint (effect S))) else None)"

definition isChorusOrReverb :: "SettingsObjType \<Rightarrow> bool" where
  "isChorusOrReverb S = (effect S = CHORUS \<or> effect S = FAST_CHORUS \<or> effect S = REVERB)"

text \<open>
  The tempo-derived value
  \<open>byte(236.88 * pow(0.9978, baseFactor[k] * cycleTime / DIV_FACTOR))\<close> is floating point;
  it is the parameter \<open>pwm k cycleTime\<close> of the handlers. \<open>baseFactor\<close> has
  \<open>NR_OF_MULT_FACTORS\<close> entries, so the read is in bounds only for \<open>k < 16\<close>.
\<close>

definition symbolicDelayTime :: "(nat \<Rightarrow> u32 \<Rightarrow> u8) \<Rightarrow> u8 \<Rightarrow> u32 \<Rightarrow> u8 option" where
  "symbolicDelayTime pwm k cyc =
     (if unat k < NR_OF_MULT_FACTORS then Some (pwm (unat k) cyc) else None)"

text \<open>
  \<open>rotate\<close>, the encoder interrupt handler; \<open>rotationDirection\<close> is what
  \<open>rotary.process()\<close> returned. The two branches for an event in SetParameter mode
  (\<open>inSelectMode\<close> false) are \<open>rotate_ccw_parameter\<close> and \<open>rotate_cw_parameter\<close>.
\<close>

definition rotate_ccw_parameter :: "(nat \<Rightarrow> u32 \<Rightarrow> u8) \<Rightarrow> controller \<Rightarrow> controller option" where
  "rotate_ccw_parameter pwm s =
     (case effect_index (settings s) of
        None \<Rightarrow> None
      | Some i \<Rightarrow>
          let S = settings s;
              k = (if baseFactorIndex S ! i > 0 then baseFactorIndex S ! i - countDirection s else 0);
              S1 = S\<lparr>baseFactorIndex := (baseFactorIndex S)[i := k]\<rparr>;
              clampMin = (\<lambda>d. if d < DELAY_TIME_MIN then DELAY_TIME_MIN else d)
          in if \<not> fineTuneDelayTime s then
               (if useSymbolicTimeString s \<and> \<not> isChorusOrReverb S then
                  (case symbolicDelayTime pwm k (cycleTime s) of
                     None \<Rightarrow> None
                   | Some d \<Rightarrow>
                       Some (s\<lparr>settings := S1\<lparr>delayTime := (delayTime S1)[i := clampMin d]\<rparr>,
                               coarseDelayTime := d\<rparr>))
                else
                  Some (s\<lparr>settings :=
                    S1\<lparr>delayTime := (delayTime S1)[i := clampMin (delayTime S1 ! i - countDirection s)]\<rparr>\<rparr>))
             else
               Some (s\<lparr>settings :=
                 S1\<lparr>delayTime := (delayTime S1)[i := clampMin (delayTime S1 ! i - countDirection s)]\<rparr>\<rparr>))"

definition rotate_cw_parameter :: "(nat \<Rightarrow> u32 \<Rightarrow> u8) \<Rightarrow> controller \<Rightarrow> controller option" where
  "rotate_cw_parameter pwm s =
     (case effect_index (settings s) of
        None \<Rightarrow> None
      | Some i \<Rightarrow>
          let S = settings s;
              k0 = baseFactorIndex S ! i + countDirection s;
              k = (if unat k0 > NR_OF_MULT_FACTORS - 1 then of_nat (NR_OF_MULT_FACTORS - 1) else k0);
              S1 = S\<lparr>baseFactorIndex := (baseFactorIndex S)[i := k]\<rparr>;
              clampMax = (\<lambda>d. if d > delayTimeMax s ! i then delayTimeMax s ! i else d)
          in if \<not> fineTuneDelayTime s then
               (if useSymbolicTimeString s \<and> \<not> isChorusOrReverb S then
                  (case symbolicDelayTime pwm k (cycleTime s) of
                     None \<Rightarrow> None
                   | Some d \<Rightarrow>
                       Some (s\<lparr>settings := S1\<lparr>delayTime := (delayTime S1)[i := clampMax d]\<rparr>,
                               coarseDelayTime := d\<rparr>))
                else
                  Some (s\<lparr>settings :=
                    S1\<lparr>delayTime := (delayTime S1)[i := clampMax (delayTime S1 ! i + countDirection s)]\<rparr>\<rparr>))
             else
               Some (s\<lparr>settings :=
                 S1\<lparr>delayTime := (delayTime S1)[i := clampMax (delayTime S1 ! i + countDirection s)]\<rparr>\<rparr>))"

definition rotate :: "(nat \<Rightarrow> u32 \<Rightarrow> u8) \<Rightarrow> rotation \<Rightarrow> controller \<Rightarrow> controller option" where
  "rotate pwm rotationDirection s =
     (case rotationDirection of
        DIR_NONE \<Rightarrow> Some s
      | DIR_CCW \<Rightarrow>
          if inSelectMode s then
            Some (s\<lparr>settings := (settings s)\<lparr>effect :=
                    (if sint (effect (settings s)) > 0 then effect (settings s) - 1
                     else of_nat (NR_OF_EFFECTS - 1))\<rparr>\<rparr>)
          else rotate_ccw_parameter pwm s
      | DIR_CW \<Rightarrow>
          if inSelectMode s then
            Some (s\<lparr>settings := (settings s)\<lparr>effect :=
                    (if sint (effect (settings s) + 1) > int NR_OF_EFFECTS - 1 then 0
                     else effect (settings s) + 1)\<rparr>\<rparr>)
          else rotate_cw_parameter pwm s)"

text \<open>A sequence of encoder events, stopping at undefined behaviour.\<close>

fun rotate_all :: "(nat \<Rightarrow> u32 \<Rightarrow> u8) \<Rightarrow> rotation list \<Rightarrow> controller \<Rightarrow> controller option" where
  "rotate_all pwm [] s = Some s"
| "rotate_all pwm (d # ds) s =
     (case rotate pwm d s of None \<Rightarrow> None | Some s' \<Rightarrow> rotate_all pwm ds s')"

text \<open>
  \<open>extClock\<close>, the handler of the external clock pulse; \<open>now\<close> is what \<open>micros()\<close>
  returned. (The trailing \<open>button.tick()\<close> belongs to the button library.)
\<close>

definition extClock :: "(nat \<Rightarrow> u32 \<Rightarrow> u8) \<Rightarrow> u32 \<Rightarrow> controller \<Rightarrow> controller option" where
  "extClock pwm now s =
     (let s1 = s\<lparr>irqCounter := irqCounter s + 1,
                 thisTime := now,
                 sumTime := sumTime s + (now - oldTime s),
                 oldTime := now\<rparr>
      in if irqCounter s1 > NR_OF_CYCLES then
           let s2 = s1\<lparr>cycleTime := sumTime s1 div ucast (irqCounter s1)\<rparr>;
               finish = (\<lambda>t. t\<lparr>useSymbolicTimeString := True, ledDelay := LED_DELAY div 10,
                               irqCounter := 0, sumTime := 0\<rparr>)
           in if \<not> fineTuneDelayTime s2 then
                (case effect_index (settings s2) of
                   None \<Rightarrow> None
                 | Some i \<Rightarrow>
                     (case symbolicDelayTime pwm (baseFactorIndex (settings s2) ! i) (cycleTime s2) of
                        None \<Rightarrow> None
                      | Some tmp0 \<Rightarrow>
                          let tmp1 = (if tmp0 > delayTimeMax s2 ! i then delayTimeMax s2 ! i else tmp0);
                              tmp = (if tmp1 < DELAY_TIME_MIN then DELAY_TIME_MIN else tmp1)
                          in Some (finish (s2\<lparr>settings :=
                               (settings s2)\<lparr>delayTime := (delayTime (settings s2))[i := tmp]\<rparr>\<rparr>))))
              else Some (finish s2)
         else Some s1)"

fun extClock_all :: "(nat \<Rightarrow> u32 \<Rightarrow> u8) \<Rightarrow> u32 list \<Rightarrow> controller \<Rightarrow> controller option" where
  "extClock_all pwm [] s = Some s"
| "extClock_all pwm (t # ts) s =
     (case extClock pwm t s of None \<Rightarrow> None | Some s' \<Rightarrow> extClock_all pwm ts s')"

text \<open>The parts of \<open>loop\<close> the claims are about; \<open>now\<close> is \<open>micros()\<close> or \<open>millis()\<close>.\<close>


text \<open>The direction convention the effect switch of \<open>loop\<close> assigns to \<open>countDirection\<close>.\<close>

definition loop_countDirection :: "u8 \<Rightarrow> u8" where
  "loop_countDirection eff =
     (if eff = REVERB \<or> eff = WOW_NOT_FLUTTER \<or> eff = TELEGRAPH \<or> eff = TELEVERB \<or> eff = PSYCHO
      then LEFT else RIGHT)"

definition updateEepromTimer :: "u32 \<Rightarrow> controller \<Rightarrow> controller" where
  "updateEepromTimer now s =
     s\<lparr>writeToEeprom := True, writeTimer := now + DELAY_TIME_BEFORE_WRITING_TO_EEPROM_IN_MS\<rparr>"

text \<open>
  \<open>writeSettingsToEeprom\<close>; the last component counts the calls of \<open>eeprom.write\<close>
  it made (0 or 1).
\<close>

definition writeSettingsToEeprom ::
  "u32 \<Rightarrow> controller \<times> eeprom_mem \<times> Eeprom \<Rightarrow> (controller \<times> eeprom_mem \<times> Eeprom) \<times> nat" where
  "writeSettingsToEeprom now st =
     (case st of (s, m, e) \<Rightarrow>
        if writeToEeprom s \<and> now > writeTimer s
        then ((s\<lparr>writeToEeprom := False\<rparr>,
               fst (Eeprom_write SIZE_OF_SETTINGS_STRUCT (settings_bytes (settings s)) m e)), 1)
        else ((s, m, e), 0))"

text \<open>
  The main loop as the scheduler sees it: a dirty notification (\<open>updateEepromTimer\<close>) or a
  poll (\<open>writeSettingsToEeprom\<close>), each with the \<open>millis()\<close> it read. \<open>run_events\<close>
  returns the final state and the number of store writes.
\<close>

datatype loop_event = Dirty u32 | Poll u32

fun run_events ::
  "loop_event list \<Rightarrow> controller \<times> eeprom_mem \<times> Eeprom \<Rightarrow> (controller \<times> eeprom_mem \<times> Eeprom) \<times> nat" where
  "run_events [] st = (st, 0)"
| "run_events (Dirty t # evs) st =
     (case st of (s, m, e) \<Rightarrow> run_events evs (updateEepromTimer t s, m, e))"
| "run_events (Poll t # evs) st =
     (case writeSettingsToEeprom t st of (st', n) \<Rightarrow>
        (case run_events evs st' of (st'', k) \<Rightarrow> (st'', n + k)))"

text \<open>
  The globals as static initialisation leaves them, and \<open>setup_settings\<close>, the part
  of \<open>setup()\<close> that loads the settings: construct the store, \<open>eeprom.read(&settings)\<close> with the result
  ignored, \<open>printSettings()\<close>, \<open>setDelays\<close> for the current effect, fill \<open>delayTimeMax\<close>,
  copy the loaded values into \<open>oldDelayTime\<close> and \<open>oldEffect\<close>, and
  \<open>oldDelayTime[settings.effect] = settings.delayTime[settings.effect]\<close> at the end.
  \<open>len\<close> is \<open>EEPROM.length()\<close>. The result is \<open>None\<close> when \<open>setup()\<close> indexes an array out of
  bounds: \<open>printSettings()\<close> reads \<open>noteDurationStringTable[settings.baseFactorIndex[effectNr]]\<close>
  for each of the 13 effects (the table has \<open>NR_OF_MULT_FACTORS\<close> entries), and \<open>setup()\<close> reads
  \<open>settings.delayTime[settings.effect]\<close>,
  \<open>noteDurationStringTable[settings.baseFactorIndex[settings.effect]]\<close> and writes
  \<open>oldDelayTime[settings.effect]\<close>. No interrupt handler runs in between.
\<close>

definition initial_globals :: controller where
  "initial_globals =
     \<lparr> settings = \<lparr> delayTime = replicate 13 0, isWetAndDrySelected = False,
                    effect = SHORT_DELAY, baseFactorIndex = replicate 13 0 \<rparr>,
       delayTimeMax = replicate 13 0, oldDelayTime = replicate 13 0, coarseDelayTime = 0,
       oldEffect = - 1, countDirection = RIGHT, inSelectMode = True,
       useSymbolicTimeString = False, fineTuneDelayTime = False,
       writeToEeprom = False, writeTimer = 0,
       oldTime = 0, thisTime = 0, sumTime = 0, cycleTime = 0, irqCounter = 0,
       ledDelay = LED_DELAY \<rparr>"

definition setup_delayTimeMax :: "u8 list" where
  "setup_delayTimeMax = [100, 255, 255, 255, 255, 255, 255, 255, 255, 60, 255, 255, 255]"

definition setup_settings ::
  "eeprom_mem \<Rightarrow> u16 \<Rightarrow> controller \<Rightarrow> ((eeprom_mem \<times> Eeprom) \<times> controller) option" where
  "setup_settings m len g =
     (let st = Eeprom_new SIZE_OF_SETTINGS_STRUCT m len;
          S = (case snd (Eeprom_read SIZE_OF_SETTINGS_STRUCT (fst st) (snd st)) of
                 Some bs \<Rightarrow> settings_of_bytes bs
               | None \<Rightarrow> settings g)
      in if \<not> list_all (\<lambda>k. unat k < NR_OF_MULT_FACTORS) (baseFactorIndex S) then None
         else (case effect_index S of
                 None \<Rightarrow> None
               | Some i \<Rightarrow>
                   Some (st, g\<lparr>settings := S, delayTimeMax := setup_delayTimeMax,
                               oldDelayTime := (delayTime S)[i := delayTime S ! i],
                               oldEffect := effect S\<rparr>)))"

text \<open>The dirty check at the head of the effect switch in \<open>loop\<close>.\<close>

definition loop_dirtyCheck :: "u32 \<Rightarrow> controller \<Rightarrow> controller option" where
  "loop_dirtyCheck now s =
     (if effect (settings s) \<noteq> oldEffect s then Some (updateEepromTimer now s)
      else (case effect_index (settings s) of
              None \<Rightarrow> None
            | Some i \<Rightarrow>
                if delayTime (settings s) ! i \<noteq> oldDelayTime s ! i
                then Some (updateEepromTimer now s) else Some s))"

text \<open>
  The only assignment to a settings field in the body of \<open>loop\<close>: in
  \<open>case(DECELERATOR)\<close> of the effect switch the delay of the decelerator is clamped to
  \<open>[DECELERATOR_UPDATE_TIME_MIN, DECELERATOR_UPDATE_TIME_MAX]\<close>. The other cases assign no
  settings field, and the \<open>default\<close> case that would reset \<open>settings.effect\<close> is commented out.
\<close>

definition DECELERATOR_UPDATE_TIME_MAX :: u8 where "DECELERATOR_UPDATE_TIME_MAX = 100"
definition DECELERATOR_UPDATE_TIME_MIN :: u8 where "DECELERATOR_UPDATE_TIME_MIN = 10"

definition loop_clampDecelerator :: "controller \<Rightarrow> controller" where
  "loop_clampDecelerator s =
     (if effect (settings s) = DECELERATOR then
        let d = delayTime (settings s) ! 0;
            d1 = (if d > DECELERATOR_UPDATE_TIME_MAX then DECELERATOR_UPDATE_TIME_MAX else d);
            d2 = (if d1 < DECELERATOR_UPDATE_TIME_MIN then DECELERATOR_UPDATE_TIME_MIN else d1)
        in s\<lparr>settings := (settings s)\<lparr>delayTime := (delayTime (settings s))[0 := d2]\<rparr>\<rparr>
      else s)"

section \<open>Concrete states\<close>

text \<open>
  A settings value with every delay at \<open>d\<close> and every ratio index at \<open>k\<close>, and the
  controller in SetParameter mode on effect \<open>eff\<close> after \<open>setup\<close> and one pass of
  \<open>loop\<close> (which assigned \<open>countDirection\<close> for that effect).
\<close>

definition demo_settings :: "u8 \<Rightarrow> u8 \<Rightarrow> u8 \<Rightarrow> SettingsObjType" where
  "demo_settings eff d k =
     \<lparr> delayTime = replicate 13 d, isWetAndDrySelected = True, effect = eff,
       baseFactorIndex = replicate 13 k \<rparr>"

definition parameter_mode :: "u8 \<Rightarrow> u8 \<Rightarrow> u8 \<Rightarrow> controller" where
  "parameter_mode eff d k =
     initial_globals\<lparr>settings := demo_settings eff d k, delayTimeMax := setup_delayTimeMax,
                     oldDelayTime := replicate 13 d, oldEffect := eff,
                     countDirection := loop_countDirection eff, inSelectMode := False\<rparr>"

text \<open>A tempo-derived value that is constant, for closed statements.\<close>

definition pwm_const :: "u8 \<Rightarrow> nat \<Rightarrow> u32 \<Rightarrow> u8" where
  "pwm_const v k cyc = v"

text \<open>
  An erased EEPROM (every cell \<open>0xFF\<close>), a 16-byte record, and a valid settings value
  whose delays for the effects 4 to 7 are all 102 (\<open>0x66\<close>).
\<close>

definition blank_eeprom :: eeprom_mem where "blank_eeprom = (\<lambda>_. 0xFF)"

definition rec16 :: "u8 list" where "rec16 = replicate 16 0"

definition sixes_settings :: SettingsObjType where
  "sixes_settings =
     \<lparr> delayTime = [60, 60, 60, 60, 102, 102, 102, 102, 60, 60, 60, 60, 60],
       isWetAndDrySelected = True, effect = SHORT_DELAY, baseFactorIndex = replicate 13 7 \<rparr>"

text \<open>
  The store on an erased EEPROM of 1024 bytes after the first \<open>init\<close>
  (\<open>boot_mem\<close>, \<open>boot_store\<close>), the memory after the first \<open>write\<close>, of
  \<open>sixes_settings\<close> (\<open>sixes_mem\<close>), and the memory after a second \<open>write\<close>
  (\<open>used_mem\<close>).
\<close>

definition boot_mem :: eeprom_mem where
  "boot_mem = EEPROM_put_ulong blank_eeprom 0 EMPTY_MARKER"

definition boot_store :: Eeprom where
  "boot_store = \<lparr>eeprom_currentAddress = 0, eeprom_sizeInBytes = 1024, blocked = False\<rparr>"

definition sixes_mem :: eeprom_mem where
  "sixes_mem = EEPROM_put_bytes (EEPROM_put_ulong (EEPROM_put_ulong boot_mem 0 ERASE_MARKER) 0 DATA_MARKER)
                 4 (settings_bytes sixes_settings)"

definition used_mem :: eeprom_mem where
  "used_mem = EEPROM_put_bytes (EEPROM_put_ulong (EEPROM_put_ulong sixes_mem 0 ERASE_MARKER) 32 DATA_MARKER)
                36 (settings_bytes (demo_settings SHORT_DELAY 60 7))"

text \<open>The memory after the first write of a settings value on the first-boot store.\<close>

definition demo_mem :: eeprom_mem where
  "demo_mem = EEPROM_put_bytes (EEPROM_put_ulong (EEPROM_put_ulong boot_mem 0 ERASE_MARKER) 0 DATA_MARKER)
                 4 (settings_bytes (demo_settings SHORT_DELAY 60 7))"


definition scheduler_start :: "controller \<times> eeprom_mem \<times> Eeprom" where
  "scheduler_start = (parameter_mode SHORT_DELAY 60 7, boot_mem, boot_store)"

section \<open>Notions the statements use\<close>

text \<open>
  The address at which \<open>write\<close> stores the new marker, read off its source: the cursor
  itself when it holds \<open>EMPTY_MARKER\<close>, else the next slot or 0
  (lemma \<open>Eeprom_write_unblocked\<close> below ties it to \<open>Eeprom_write\<close>).
\<close>

definition write_target :: "u16 \<Rightarrow> eeprom_mem \<Rightarrow> Eeprom \<Rightarrow> u16" where
  "write_target sz m e =
     (if EEPROM_get_ulong m (unat (eeprom_currentAddress e)) = EMPTY_MARKER then eeprom_currentAddress e
      else if eeprom_currentAddress e + sz + SIZE_OF_DATA_MARKER > eeprom_sizeInBytes e - 1 then 0
      else eeprom_currentAddress e + sz + SIZE_OF_DATA_MARKER)"

text \<open>
  The invariant the specification gives for a settings value: the effect index is in
  range and every delay lies within \<open>[DELAY_TIME_MIN, max]\<close> for its effect.
\<close>

definition settings_invariant :: "SettingsObjType \<Rightarrow> u8 list \<Rightarrow> bool" where
  "settings_invariant S maxs =
     (effect_index S \<noteq> None
      \<and> list_all2 (\<lambda>d mx. DELAY_TIME_MIN \<le> d \<and> d \<le> mx) (delayTime S) maxs)"

text \<open>
  The scheduler as the specification words it, on unbounded time: each dirty notification
  (re)starts the quiescence timer, and a poll invokes the store write only when more than
  10000 ms have passed since the last notification. \<open>pending\<close> is the time of the last
  notification not yet written. \<open>no_rollover\<close> says that no notification of a trace comes
  in the last 10000 ms before \<open>millis()\<close> rolls over, and \<open>timer_state\<close> relates the
  globals of the program to \<open>pending\<close>.
\<close>

fun quiescence_spec :: "nat option \<Rightarrow> loop_event list \<Rightarrow> nat" where
  "quiescence_spec pending [] = 0"
| "quiescence_spec pending (Dirty t # evs) = quiescence_spec (Some (unat t)) evs"
| "quiescence_spec None (Poll t # evs) = quiescence_spec None evs"
| "quiescence_spec (Some d) (Poll t # evs) =
     (if unat t > d + 10000 then 1 + quiescence_spec None evs else quiescence_spec (Some d) evs)"

fun no_rollover :: "loop_event list \<Rightarrow> bool" where
  "no_rollover [] = True"
| "no_rollover (Dirty t # evs) = (unat t + 10000 < 2 ^ 32 \<and> no_rollover evs)"
| "no_rollover (Poll t # evs) = no_rollover evs"

definition timer_state :: "controller \<Rightarrow> nat option \<Rightarrow> bool" where
  "timer_state s pending =
     (case pending of None \<Rightarrow> \<not> writeToEeprom s
      | Some d \<Rightarrow> writeToEeprom s \<and> unat (writeTimer s) = d + 10000)"

text \<open>
  A live marker is \<open>DATA_MARKER\<close> at a marker-aligned address. \<open>cap\<close> is the
  capacity of the memory. A payload is marker free when none of its aligned 4-byte words
  is \<open>DATA_MARKER\<close>.
\<close>

definition live_marker_at :: "eeprom_mem \<Rightarrow> nat \<Rightarrow> bool" where
  "live_marker_at m a = (a mod 4 = 0 \<and> EEPROM_get_ulong m a = DATA_MARKER)"

definition at_most_one_live_marker :: "eeprom_mem \<Rightarrow> nat \<Rightarrow> bool" where
  "at_most_one_live_marker m cap =
     (\<forall>a<cap. \<forall>b<cap. live_marker_at m a \<longrightarrow> live_marker_at m b \<longrightarrow> a = b)"

definition no_live_marker_except :: "eeprom_mem \<Rightarrow> nat \<Rightarrow> nat \<Rightarrow> bool" where
  "no_live_marker_except m cap c = (\<forall>a<cap. live_marker_at m a \<longrightarrow> a = c)"

definition payload_marker_free :: "u8 list \<Rightarrow> bool" where
  "payload_marker_free bs =
     list_all (\<lambda>k. bytes_ulong (bs ! (4 * k)) (bs ! (4 * k + 1)) (bs ! (4 * k + 2)) (bs ! (4 * k + 3)) \<noteq> DATA_MARKER)
       [0..<length bs div 4]"

section \<open>Memory lemmas\<close>

lemmas cfg_defs = NR_OF_EFFECTS_def NR_OF_MULT_FACTORS_def NR_OF_CYCLES_def DELAY_TIME_MIN_def
  EXT_CLOCK_TIMEOUT_def DELAY_TIME_BEFORE_WRITING_TO_EEPROM_IN_MS_def LED_DELAY_def
  DECELERATOR_def SHORT_DELAY_def CHORUS_def FAST_CHORUS_def REVERB_def WOW_NOT_FLUTTER_def
  TELEGRAPH_def TELEVERB_def PSYCHO_def LEFT_def RIGHT_def

lemmas state_defs = parameter_mode_def demo_settings_def initial_globals_def
  setup_delayTimeMax_def loop_countDirection_def effect_index_def isChorusOrReverb_def
  symbolicDelayTime_def pwm_const_def


lemma settings_bytes_length: "valid_layout S \<Longrightarrow> length (settings_bytes S) = 28"
  by (simp add: valid_layout_def settings_bytes_def NR_OF_EFFECTS_def)

lemma put_bytes_outside: "a < p \<or> p + length bs \<le> a \<Longrightarrow> EEPROM_put_bytes m p bs a = m a"
  by (induction bs arbitrary: m p) auto

lemma put_bytes_inside: "i < length bs \<Longrightarrow> EEPROM_put_bytes m p bs (p + i) = bs ! i"
proof (induction bs arbitrary: m p i)
  case Nil
  then show ?case by simp
next
  case (Cons b bs)
  show ?case
  proof (cases i)
    case 0
    then show ?thesis by (simp add: put_bytes_outside)
  next
    case (Suc j)
    with Cons.prems have "j < length bs" by simp
    then have "EEPROM_put_bytes (m(p := b)) (Suc p) bs (Suc p + j) = bs ! j"
      by (rule Cons.IH)
    with Suc show ?thesis by simp
  qed
qed

lemma bytes_ulong_bytes:
  "bytes_ulong (ucast v) (ucast (drop_bit 8 v)) (ucast (drop_bit 16 v)) (ucast (drop_bit 24 v)) = v"
  unfolding bytes_ulong_def
proof (rule bit_word_eqI)
  fix n assume "n < LENGTH(32)"
  then have n: "n < 32" by simp
  consider "n < 8" | "8 \<le> n" "n < 16" | "16 \<le> n" "n < 24" | "24 \<le> n" by linarith
  then show "bit (ucast (ucast v :: u8) OR push_bit 8 (ucast (ucast (drop_bit 8 v) :: u8)) OR
             push_bit 16 (ucast (ucast (drop_bit 16 v) :: u8)) OR
             push_bit 24 (ucast (ucast (drop_bit 24 v) :: u8)) :: u32) n = bit v n"
    using n by cases (auto simp add: bit_simps)
qed

lemma get_put_ulong_same: "EEPROM_get_ulong (EEPROM_put_ulong m a v) a = v"
  using bytes_ulong_bytes[of v]
  by (simp add: EEPROM_get_ulong_def EEPROM_put_ulong_def ulong_bytes_def)

lemma markers_distinct:
  "DATA_MARKER \<noteq> ERASE_MARKER" "DATA_MARKER \<noteq> EMPTY_MARKER" "ERASE_MARKER \<noteq> EMPTY_MARKER"
  "ERASE_MARKER \<noteq> DATA_MARKER" "EMPTY_MARKER \<noteq> DATA_MARKER" "EMPTY_MARKER \<noteq> ERASE_MARKER"
  by (simp_all add: DATA_MARKER_def ERASE_MARKER_def EMPTY_MARKER_def)

lemma get_ulong_put_bytes_outside:
  "a + 4 \<le> p \<or> p + length bs \<le> a \<Longrightarrow>
   EEPROM_get_ulong (EEPROM_put_bytes m p bs) a = EEPROM_get_ulong m a"
  by (auto simp add: EEPROM_get_ulong_def put_bytes_outside)

lemma get_ulong_put_ulong_other:
  "a + 4 \<le> c \<or> c + 4 \<le> a \<Longrightarrow>
   EEPROM_get_ulong (EEPROM_put_ulong m c v) a = EEPROM_get_ulong m a"
  unfolding EEPROM_put_ulong_def
  by (rule get_ulong_put_bytes_outside) (auto simp add: ulong_bytes_def)

lemma get_bytes_put_bytes: "EEPROM_get_bytes (EEPROM_put_bytes m p bs) p (length bs) = bs"
  by (rule nth_equalityI) (simp_all add: EEPROM_get_bytes_def put_bytes_inside)

lemma get_ulong_put_bytes_inside:
  "4 * k + 3 < length bs \<Longrightarrow>
   EEPROM_get_ulong (EEPROM_put_bytes m p bs) (p + 4 * k) =
     bytes_ulong (bs ! (4 * k)) (bs ! (4 * k + 1)) (bs ! (4 * k + 2)) (bs ! (4 * k + 3))"
  using put_bytes_inside[of "4 * k" bs m p] put_bytes_inside[of "4 * k + 1" bs m p]
        put_bytes_inside[of "4 * k + 2" bs m p] put_bytes_inside[of "4 * k + 3" bs m p]
  by (simp add: EEPROM_get_ulong_def add.assoc)

lemma blank_no_marker: "EEPROM_get_ulong blank_eeprom a \<noteq> DATA_MARKER"
  by (simp add: blank_eeprom_def EEPROM_get_ulong_def bytes_ulong_def DATA_MARKER_def)

section \<open>Lemmas about the store\<close>

lemma scan_marker_none:
  "(\<And>b. a \<le> b \<Longrightarrow> b < bound \<Longrightarrow> b mod 4 = a mod 4 \<Longrightarrow> EEPROM_get_ulong m b \<noteq> DATA_MARKER)
   \<Longrightarrow> scan_marker m bound a = None"
proof (induction m bound a rule: scan_marker.induct)
  case (1 m bound a)
  show ?case
  proof (cases "a < bound")
    case True
    then have here: "EEPROM_get_ulong m a \<noteq> DATA_MARKER"
      using "1.prems" by simp
    have "scan_marker m bound (a + 4) = None"
    proof (rule "1.IH"[OF True here])
      fix b assume "a + 4 \<le> b" "b < bound" "b mod 4 = (a + 4) mod 4"
      then show "EEPROM_get_ulong m b \<noteq> DATA_MARKER"
        using "1.prems"[of b] by simp
    qed
    with True here show ?thesis by (subst scan_marker.simps) simp
  next
    case False
    then show ?thesis by (subst scan_marker.simps) simp
  qed
qed

lemma Eeprom_new_blank:
  assumes "sz mod 4 = 0" and "\<not> sz + 4 > len"
  shows "Eeprom_new sz blank_eeprom len =
     (EEPROM_put_ulong blank_eeprom 0 EMPTY_MARKER,
      \<lparr>eeprom_currentAddress = 0, eeprom_sizeInBytes = len, blocked = False\<rparr>)"
  using assms
  by (simp add: Eeprom_new_def Eeprom_init_def SIZE_OF_DATA_MARKER_def scan_marker_none blank_no_marker)

lemma Eeprom_write_unblocked:
  "\<not> blocked e \<Longrightarrow>
   Eeprom_write sz bs m e =
     ((EEPROM_put_bytes (EEPROM_put_ulong (eraseMarkerByte m e) (unat (write_target sz m e)) DATA_MARKER)
         (unat (write_target sz m e + SIZE_OF_DATA_MARKER)) bs,
       e\<lparr>eeprom_currentAddress := write_target sz m e\<rparr>),
      uint (sz + SIZE_OF_DATA_MARKER))"
  by (simp add: Eeprom_write_def write_target_def Let_def)

lemma first_write_in_place:
  assumes "\<not> blocked e" and "EEPROM_get_ulong m (unat (eeprom_currentAddress e)) = EMPTY_MARKER"
  shows "fst (Eeprom_write sz bs m e) =
     (EEPROM_put_bytes (EEPROM_put_ulong (eraseMarkerByte m e) (unat (eeprom_currentAddress e)) DATA_MARKER)
         (unat (eeprom_currentAddress e + 4)) bs, e)"
  using assms by (simp add: Eeprom_write_unblocked write_target_def SIZE_OF_DATA_MARKER_def)

lemma marker_after_write:
  assumes "\<not> blocked e" and "unat (write_target sz m e) + 4 < 65536"
  shows "EEPROM_get_ulong (fst (fst (Eeprom_write sz bs m e))) (unat (write_target sz m e)) = DATA_MARKER"
proof -
  have "unat (write_target sz m e + SIZE_OF_DATA_MARKER) = unat (write_target sz m e) + 4"
    using assms(2) by (simp add: SIZE_OF_DATA_MARKER_def unat_word_ariths)
  then show ?thesis
    using assms(1) by (simp add: Eeprom_write_unblocked get_ulong_put_bytes_outside get_put_ulong_same)
qed

lemma write_all_append: "write_all sz (rs @ rs') st = write_all sz rs' (write_all sz rs st)"
  by (induction rs arbitrary: st) simp_all

text \<open>
  While the next slot starts below the capacity, every write of a store whose cursor
  holds a live marker advances the cursor by one slot.
\<close>

lemma write_all_advance:
  assumes "\<not> blocked e"
      and "EEPROM_get_ulong m (unat (eeprom_currentAddress e)) = DATA_MARKER"
      and "unat (eeprom_currentAddress e) + length rs * (unat sz + 4) < unat (eeprom_sizeInBytes e)"
      and "unat (eeprom_sizeInBytes e) \<le> 65532"
  shows "\<not> blocked (snd (write_all sz rs (m, e)))
       \<and> eeprom_sizeInBytes (snd (write_all sz rs (m, e))) = eeprom_sizeInBytes e
       \<and> unat (eeprom_currentAddress (snd (write_all sz rs (m, e))))
           = unat (eeprom_currentAddress e) + length rs * (unat sz + 4)
       \<and> EEPROM_get_ulong (fst (write_all sz rs (m, e)))
             (unat (eeprom_currentAddress e) + length rs * (unat sz + 4)) = DATA_MARKER"
  using assms
proof (induction rs arbitrary: m e)
  case Nil
  then show ?case by simp
next
  case (Cons r rs)
  let ?c = "eeprom_currentAddress e"
  let ?t = "write_target sz m e"
  let ?e' = "e\<lparr>eeprom_currentAddress := ?t\<rparr>"
  have bound: "unat ?c + unat sz + 4 < unat (eeprom_sizeInBytes e)"
    using Cons.prems(3) by simp
  have nz: "eeprom_sizeInBytes e \<noteq> 0"
    using bound by auto
  have usz: "unat (eeprom_sizeInBytes e - 1) = unat (eeprom_sizeInBytes e) - 1"
    by (rule unat_minus_one[OF nz])
  have utmp: "unat (?c + sz + 4) = unat ?c + unat sz + 4"
    using bound Cons.prems(4) by (simp add: unat_word_ariths)
  have nowrap: "\<not> ?c + sz + 4 > eeprom_sizeInBytes e - 1"
    using bound by (simp add: word_less_nat_alt utmp usz)
  have tgt: "?t = ?c + sz + 4"
    using Cons.prems(2) nowrap markers_distinct
    unfolding write_target_def SIZE_OF_DATA_MARKER_def by simp
  have ut: "unat ?t = unat ?c + unat sz + 4"
    unfolding tgt by (rule utmp)
  obtain m' where w: "fst (Eeprom_write sz r m e) = (m', ?e')"
    using Cons.prems(1) by (simp add: Eeprom_write_unblocked)
  have mk: "EEPROM_get_ulong m' (unat ?t) = DATA_MARKER"
    using marker_after_write[of e sz m r] Cons.prems(1) ut bound Cons.prems(4) w by simp
  have a: "\<not> blocked ?e'"
    using Cons.prems(1) by simp
  have b: "EEPROM_get_ulong m' (unat (eeprom_currentAddress ?e')) = DATA_MARKER"
    using mk by simp
  have c: "unat (eeprom_currentAddress ?e') + length rs * (unat sz + 4) < unat (eeprom_sizeInBytes ?e')"
    using Cons.prems(3) ut by simp
  have d: "unat (eeprom_sizeInBytes ?e') \<le> 65532"
    using Cons.prems(4) by simp
  from Cons.IH[OF a b c d] show ?case
    using w ut by (auto simp add: add.assoc)
qed

lemma unat_u16_bound: "unat (w::u16) < 65536"
proof -
  have "unat w < 2 ^ LENGTH(16)" by (rule unsigned_less)
  then show ?thesis by simp
qed

lemma unat_add_aligned:
  fixes x y :: u16
  assumes "unat x mod 4 = 0" and "unat y mod 4 = 0"
  shows "unat (x + y) mod 4 = 0"
proof -
  have "unat (x + y) = (unat x + unat y) mod 65536"
    by (simp add: unat_word_ariths)
  moreover have "((unat x + unat y) mod 65536) mod 4 = (unat x + unat y) mod 4"
    by (rule mod_mod_cancel) simp
  moreover have "(unat x + unat y) mod 4 = (unat x mod 4 + unat y mod 4) mod 4"
    by (rule mod_add_eq[symmetric])
  ultimately show ?thesis
    using assms by simp
qed

lemma write_target_aligned:
  assumes "unat (eeprom_currentAddress e) mod 4 = 0" and "unat sz mod 4 = 0"
  shows "unat (write_target sz m e) mod 4 = 0"
  using assms unat_add_aligned[of "eeprom_currentAddress e + sz" 4]
        unat_add_aligned[of "eeprom_currentAddress e" sz]
  by (simp add: write_target_def SIZE_OF_DATA_MARKER_def)

lemma aligned_apart: "a mod 4 = 0 \<Longrightarrow> b mod 4 = 0 \<Longrightarrow> a \<noteq> b \<Longrightarrow> a + 4 \<le> b \<or> b + 4 \<le> (a::nat)"
  by presburger

lemma aligned_outside:
  "a mod 4 = 0 \<Longrightarrow> p mod 4 = 0 \<Longrightarrow> \<not> (p \<le> a \<and> a < p + n) \<Longrightarrow> a + 4 \<le> p \<or> p + n \<le> (a::nat)"
  by presburger

lemma aligned_inside:
  assumes "a mod 4 = 0" and "p mod 4 = 0" and "n mod 4 = 0" and "p \<le> a" and "a < p + (n::nat)"
  shows "a = p + 4 * ((a - p) div 4) \<and> 4 * ((a - p) div 4) + 3 < n"
proof -
  obtain i where i: "a = 4 * i" using assms(1) by (auto simp add: mod_eq_0_iff_dvd elim: dvdE)
  obtain j where j: "p = 4 * j" using assms(2) by (auto simp add: mod_eq_0_iff_dvd elim: dvdE)
  obtain l where l: "n = 4 * l" using assms(3) by (auto simp add: mod_eq_0_iff_dvd elim: dvdE)
  have "4 * i - 4 * j = 4 * (i - j)" by simp
  then have d: "(a - p) div 4 = i - j" unfolding i j by simp
  show ?thesis unfolding d using assms(4,5) unfolding i j l by (simp add: diff_mult_distrib2 [symmetric]) arith
qed

lemma erased_no_marker:
  assumes "unat (eeprom_currentAddress e) mod 4 = 0"
      and "no_live_marker_except m cap (unat (eeprom_currentAddress e))"
      and "a < cap" and "a mod 4 = 0"
  shows "EEPROM_get_ulong (eraseMarkerByte m e) a \<noteq> DATA_MARKER"
proof (cases "a = unat (eeprom_currentAddress e)")
  case True
  then show ?thesis by (simp add: eraseMarkerByte_def get_put_ulong_same markers_distinct)
next
  case False
  have "a + 4 \<le> unat (eeprom_currentAddress e) \<or> unat (eeprom_currentAddress e) + 4 \<le> a"
    using aligned_apart[OF assms(4) assms(1) False] .
  then have "EEPROM_get_ulong (eraseMarkerByte m e) a = EEPROM_get_ulong m a"
    by (simp add: eraseMarkerByte_def get_ulong_put_ulong_other)
  then show ?thesis
    using assms(2,3,4) False by (auto simp add: no_live_marker_except_def live_marker_at_def)
qed

lemma payload_word_not_marker:
  assumes "payload_marker_free bs" and "length bs mod 4 = 0" and "p mod 4 = 0" and "a mod 4 = 0"
      and "p \<le> a" and "a < p + length bs"
  shows "EEPROM_get_ulong (EEPROM_put_bytes m p bs) a \<noteq> DATA_MARKER"
proof -
  define k where "k = (a - p) div 4"
  have ak: "a = p + 4 * k" and k3: "4 * k + 3 < length bs"
    using aligned_inside[OF assms(4) assms(3) assms(2) assms(5) assms(6)] unfolding k_def by simp_all
  have kk: "k < length bs div 4" using k3 by simp
  have "bytes_ulong (bs ! (4 * k)) (bs ! (4 * k + 1)) (bs ! (4 * k + 2)) (bs ! (4 * k + 3)) \<noteq> DATA_MARKER"
    using assms(1) kk by (simp add: payload_marker_free_def list_all_iff)
  then show ?thesis
    unfolding ak by (simp add: get_ulong_put_bytes_inside[OF k3])
qed

lemma write_single_marker:
  assumes nb: "\<not> blocked e"
      and ca: "unat (eeprom_currentAddress e) mod 4 = 0" and sa: "unat sz mod 4 = 0"
      and len: "length bs = unat sz"
      and free: "payload_marker_free bs"
      and inv: "no_live_marker_except m cap (unat (eeprom_currentAddress e))"
  shows "no_live_marker_except (fst (fst (Eeprom_write sz bs m e))) cap (unat (write_target sz m e))"
  unfolding no_live_marker_except_def
proof (intro allI impI)
  fix a assume acap: "a < cap" and lm: "live_marker_at (fst (fst (Eeprom_write sz bs m e))) a"
  let ?t = "write_target sz m e"
  let ?p = "unat (?t + 4)"
  let ?m1 = "eraseMarkerByte m e"
  let ?m2 = "EEPROM_put_ulong ?m1 (unat ?t) DATA_MARKER"
  let ?m3 = "EEPROM_put_bytes ?m2 ?p bs"
  have m3: "fst (fst (Eeprom_write sz bs m e)) = ?m3"
    using nb by (simp add: Eeprom_write_unblocked SIZE_OF_DATA_MARKER_def)
  have al: "a mod 4 = 0" and dm: "EEPROM_get_ulong ?m3 a = DATA_MARKER"
    using lm unfolding m3 live_marker_at_def by simp_all
  have ta: "unat ?t mod 4 = 0" by (rule write_target_aligned[OF ca sa])
  have pa: "?p mod 4 = 0" using unat_add_aligned[of ?t 4] ta by simp
  have la: "length bs mod 4 = 0" using len sa by simp
  show "a = unat ?t"
  proof (rule ccontr)
    assume ne: "a \<noteq> unat ?t"
    show False
    proof (cases "?p \<le> a \<and> a < ?p + length bs")
      case True
      then show ?thesis
        using payload_word_not_marker[OF free la pa al, of ?m2] dm by simp
    next
      case False
      then have "a + 4 \<le> ?p \<or> ?p + length bs \<le> a"
        by (rule aligned_outside[OF al pa])
      then have "EEPROM_get_ulong ?m3 a = EEPROM_get_ulong ?m2 a"
        by (rule get_ulong_put_bytes_outside)
      moreover have "a + 4 \<le> unat ?t \<or> unat ?t + 4 \<le> a"
        using aligned_apart[OF al ta ne] .
      then have "EEPROM_get_ulong ?m2 a = EEPROM_get_ulong ?m1 a"
        by (rule get_ulong_put_ulong_other)
      ultimately show ?thesis
        using dm erased_no_marker[OF ca inv acap al] by simp
    qed
  qed
qed

lemma reboot_after_erase:
  assumes ca: "unat (eeprom_currentAddress e) mod 4 = 0" and sa: "unat sz mod 4 = 0"
      and fits: "unat sz + 4 \<le> unat len"
      and inv: "no_live_marker_except m (unat len) (unat (eeprom_currentAddress e))"
  shows "Eeprom_new sz (eraseMarkerByte m e) len =
           (EEPROM_put_ulong (eraseMarkerByte m e) 0 EMPTY_MARKER,
            \<lparr>eeprom_currentAddress = 0, eeprom_sizeInBytes = len, blocked = False\<rparr>)"
proof -
  have w4: "sz mod 4 = 0"
    using sa by (simp add: word_unat_eq_iff unat_mod)
  have u4: "unat (sz + 4) = unat sz + 4"
    using fits unat_u16_bound[of len] by (simp add: unat_word_ariths)
  have notlarge: "\<not> sz + 4 > len"
    using fits by (simp add: word_less_nat_alt u4)
  have le: "sz \<le> len" using fits by (simp add: word_le_nat_alt)
  have ub: "unat (len - sz) = unat len - unat sz"
    using le by (rule unat_sub)
  have "scan_marker (eraseMarkerByte m e) (unat (len - sz)) 0 = None"
  proof (rule scan_marker_none)
    fix b :: nat assume "0 \<le> b" "b < unat (len - sz)" "b mod 4 = 0 mod 4"
    then have "b < unat len" "b mod 4 = 0" using ub by simp_all
    then show "EEPROM_get_ulong (eraseMarkerByte m e) b \<noteq> DATA_MARKER"
      using erased_no_marker[OF ca inv] by simp
  qed
  then show ?thesis
    using w4 notlarge by (simp add: Eeprom_new_def Eeprom_init_def SIZE_OF_DATA_MARKER_def)
qed

lemma sixes_bytes: "settings_bytes sixes_settings =
  [60, 60, 60, 60, 102, 102, 102, 102, 60, 60, 60, 60, 60, 1, 1, 7,7,7,7,7,7,7,7,7,7,7,7,7]"
  by (simp add: settings_bytes_def sixes_settings_def SHORT_DELAY_def eval_nat_numeral)

lemma demo_bytes: "settings_bytes (demo_settings SHORT_DELAY 60 7) =
  [60, 60, 60, 60, 60, 60, 60, 60, 60, 60, 60, 60, 60, 1, 1, 7,7,7,7,7,7,7,7,7,7,7,7,7]"
  by (simp add: settings_bytes_def demo_settings_def SHORT_DELAY_def eval_nat_numeral)

lemma demo_free: "payload_marker_free (settings_bytes (demo_settings SHORT_DELAY 60 7))"
  unfolding demo_bytes payload_marker_free_def
  by (simp add: upt_conv_Cons bytes_ulong_def DATA_MARKER_def)


lemma boot_1024: "Eeprom_new SIZE_OF_SETTINGS_STRUCT blank_eeprom 1024 = (boot_mem, boot_store)"
  by (simp add: Eeprom_new_blank SIZE_OF_SETTINGS_STRUCT_def boot_mem_def boot_store_def)

lemma boot_mem_no_marker: "no_live_marker_except boot_mem cap 0"
  unfolding no_live_marker_except_def live_marker_at_def
proof (intro allI impI)
  fix a :: nat assume "a < cap" and a: "a mod 4 = 0 \<and> EEPROM_get_ulong boot_mem a = DATA_MARKER"
  show "a = 0"
  proof (rule ccontr)
    assume "a \<noteq> 0"
    then have "a + 4 \<le> 0 \<or> 0 + 4 \<le> a" using a aligned_apart[of a 0] by simp
    then have "EEPROM_get_ulong boot_mem a = EEPROM_get_ulong blank_eeprom a"
      unfolding boot_mem_def by (rule get_ulong_put_ulong_other)
    then show False using a blank_no_marker[of a] by auto
  qed
qed

lemma sixes_write: "fst (Eeprom_write SIZE_OF_SETTINGS_STRUCT (settings_bytes sixes_settings) boot_mem boot_store)
    = (sixes_mem, boot_store)"
  by (simp add: first_write_in_place boot_store_def boot_mem_def get_put_ulong_same sixes_mem_def eraseMarkerByte_def)

lemma sixes_mem_0: "EEPROM_get_ulong sixes_mem 0 = DATA_MARKER"
  by (simp add: sixes_mem_def get_ulong_put_bytes_outside get_put_ulong_same)

lemma sixes_mem_4: "EEPROM_get_ulong sixes_mem 4 \<noteq> DATA_MARKER"
  using get_ulong_put_bytes_inside[of 0 "settings_bytes sixes_settings" _ 4]
  by (simp add: sixes_mem_def sixes_bytes bytes_ulong_def DATA_MARKER_def)

lemma sixes_mem_8: "EEPROM_get_ulong sixes_mem 8 = DATA_MARKER"
  using get_ulong_put_bytes_inside[of 1 "settings_bytes sixes_settings" _ 4]
  by (simp add: sixes_mem_def sixes_bytes bytes_ulong_def DATA_MARKER_def)

lemma scan_three:
  assumes "EEPROM_get_ulong m 0 \<noteq> DATA_MARKER" and "EEPROM_get_ulong m 4 \<noteq> DATA_MARKER"
      and "EEPROM_get_ulong m 8 = DATA_MARKER" and "8 < bound"
  shows "scan_marker m bound 0 = Some 8"
proof -
  have "scan_marker m bound 8 = Some 8"
    using assms(3,4) by (subst scan_marker.simps) simp
  then have "scan_marker m bound 4 = Some 8"
    using assms(2,4) by (subst scan_marker.simps) simp
  then show ?thesis
    using assms(1,4) by (subst scan_marker.simps) simp
qed

lemma Eeprom_new_found_8:
  assumes "EEPROM_get_ulong m 0 \<noteq> DATA_MARKER" and "EEPROM_get_ulong m 4 \<noteq> DATA_MARKER"
      and "EEPROM_get_ulong m 8 = DATA_MARKER"
  shows "Eeprom_new SIZE_OF_SETTINGS_STRUCT m 1024 =
           (m, \<lparr>eeprom_currentAddress = 8, eeprom_sizeInBytes = 1024, blocked = False\<rparr>)"
  using scan_three[OF assms, of 996]
  by (simp add: Eeprom_new_def Eeprom_init_def SIZE_OF_SETTINGS_STRUCT_def SIZE_OF_DATA_MARKER_def)

lemma second_write:
  "fst (Eeprom_write SIZE_OF_SETTINGS_STRUCT (settings_bytes (demo_settings SHORT_DELAY 60 7)) sixes_mem boot_store)
     = (used_mem, \<lparr>eeprom_currentAddress = 32, eeprom_sizeInBytes = 1024, blocked = False\<rparr>)"
proof -
  have "write_target SIZE_OF_SETTINGS_STRUCT sixes_mem boot_store = 32"
    using markers_distinct
    by (simp add: write_target_def boot_store_def sixes_mem_0 SIZE_OF_SETTINGS_STRUCT_def SIZE_OF_DATA_MARKER_def)
  then show ?thesis
    by (simp add: Eeprom_write_unblocked boot_store_def used_mem_def eraseMarkerByte_def SIZE_OF_DATA_MARKER_def)
qed

lemma used_mem_low:
  "a + 4 \<le> 32 \<Longrightarrow> EEPROM_get_ulong used_mem a = EEPROM_get_ulong (EEPROM_put_ulong sixes_mem 0 ERASE_MARKER) a"
  by (simp add: used_mem_def get_ulong_put_bytes_outside get_ulong_put_ulong_other)

lemma used_mem_reads:
  "EEPROM_get_ulong used_mem 0 \<noteq> DATA_MARKER"
  "EEPROM_get_ulong used_mem 4 \<noteq> DATA_MARKER"
  "EEPROM_get_ulong used_mem 8 = DATA_MARKER"
  by (simp_all add: used_mem_low get_ulong_put_ulong_other
        get_put_ulong_same markers_distinct sixes_mem_4 sixes_mem_8)

lemma settings_roundtrip: "valid_layout S \<Longrightarrow> settings_of_bytes (settings_bytes S) = S"
  by (simp add: valid_layout_def settings_bytes_def settings_of_bytes_def NR_OF_EFFECTS_def nth_append)

text \<open>Whenever marker and record fit below the capacity, \<open>read\<close> returns what \<open>write\<close> stored.\<close>

lemma write_read_roundtrip:
  assumes "\<not> blocked e" and "length bs = unat sz"
      and "unat (write_target sz m e) + 4 + unat sz \<le> unat (eeprom_sizeInBytes e)"
  shows "Eeprom_read sz (fst (fst (Eeprom_write sz bs m e))) (snd (fst (Eeprom_write sz bs m e)))
           = (uint sz, Some bs)"
proof -
  let ?t = "write_target sz m e"
  have sb: "unat (eeprom_sizeInBytes e) < 65536" by (rule unat_u16_bound)
  have t4: "unat (?t + 4) = unat ?t + 4"
    using assms(3) sb by (simp add: unat_word_ariths)
  have ts: "unat (?t + sz) = unat ?t + unat sz"
    using assms(3) sb by (simp add: unat_word_ariths)
  have fits: "\<not> ?t + sz > eeprom_sizeInBytes e"
    using assms(3) by (simp add: word_less_nat_alt ts)
  have mk: "EEPROM_get_ulong (fst (fst (Eeprom_write sz bs m e))) (unat ?t) = DATA_MARKER"
    using assms(1,3) sb by (intro marker_after_write) simp_all
  have pl: "EEPROM_get_bytes (fst (fst (Eeprom_write sz bs m e))) (unat (?t + 4)) (unat sz) = bs"
    using assms(1) get_bytes_put_bytes[of _ "unat (?t + 4)" bs]
    by (simp add: Eeprom_write_unblocked SIZE_OF_DATA_MARKER_def assms(2))
  show ?thesis
    using assms(1) fits mk pl
    by (simp add: Eeprom_read_def Eeprom_write_unblocked SIZE_OF_DATA_MARKER_def)
qed

lemma replicate_13: "replicate 13 x = [x, x, x, x, x, x, x, x, x, x, x, x, x]"
  by (simp add: eval_nat_numeral)

lemma u32_max: "\<not> (4294967295::u32) < w"
proof -
  have "unat w < 2 ^ LENGTH(32)" by (rule unsigned_less)
  then show ?thesis by (simp add: word_less_nat_alt)
qed

lemma stored_record_found:
  assumes "length bs = 28"
  shows "fst (Eeprom_write SIZE_OF_SETTINGS_STRUCT bs boot_mem boot_store)
           = (EEPROM_put_bytes (EEPROM_put_ulong (EEPROM_put_ulong boot_mem 0 ERASE_MARKER) 0 DATA_MARKER) 4 bs, boot_store)"
    and "Eeprom_new SIZE_OF_SETTINGS_STRUCT
           (EEPROM_put_bytes (EEPROM_put_ulong (EEPROM_put_ulong boot_mem 0 ERASE_MARKER) 0 DATA_MARKER) 4 bs) 1024
         = (EEPROM_put_bytes (EEPROM_put_ulong (EEPROM_put_ulong boot_mem 0 ERASE_MARKER) 0 DATA_MARKER) 4 bs, boot_store)"
    and "Eeprom_read SIZE_OF_SETTINGS_STRUCT
           (EEPROM_put_bytes (EEPROM_put_ulong (EEPROM_put_ulong boot_mem 0 ERASE_MARKER) 0 DATA_MARKER) 4 bs) boot_store
         = (28, Some bs)"
proof -
  let ?m = "EEPROM_put_bytes (EEPROM_put_ulong (EEPROM_put_ulong boot_mem 0 ERASE_MARKER) 0 DATA_MARKER) 4 bs"
  show "fst (Eeprom_write SIZE_OF_SETTINGS_STRUCT bs boot_mem boot_store) = (?m, boot_store)"
    by (simp add: first_write_in_place boot_store_def boot_mem_def get_put_ulong_same eraseMarkerByte_def)
  have mk: "EEPROM_get_ulong ?m 0 = DATA_MARKER"
    by (simp add: get_ulong_put_bytes_outside get_put_ulong_same)
  have "scan_marker ?m 996 0 = Some 0"
    using mk by (subst scan_marker.simps) simp
  then show "Eeprom_new SIZE_OF_SETTINGS_STRUCT ?m 1024 = (?m, boot_store)"
    by (simp add: Eeprom_new_def Eeprom_init_def SIZE_OF_SETTINGS_STRUCT_def SIZE_OF_DATA_MARKER_def boot_store_def)
  have "EEPROM_get_bytes ?m 4 28 = bs"
    using get_bytes_put_bytes[of _ 4 bs] assms by simp
  then show "Eeprom_read SIZE_OF_SETTINGS_STRUCT ?m boot_store = (28, Some bs)"
    using mk by (simp add: Eeprom_read_def boot_store_def SIZE_OF_SETTINGS_STRUCT_def SIZE_OF_DATA_MARKER_def)
qed

text \<open>The store list of \<open>write\<close> is what \<open>write\<close> does to the memory.\<close>

lemma write_stores_all:
  "apply_stores m (Eeprom_write_stores sz bs m e) = fst (fst (Eeprom_write sz bs m e))"
  by (simp add: Eeprom_write_stores_def Eeprom_write_def Let_def eraseMarkerByte_def EEPROM_put_ulong_def)

lemma write_stores_crash_after_erase:
  "\<not> blocked e \<Longrightarrow> apply_stores m (take 1 (Eeprom_write_stores sz bs m e)) = eraseMarkerByte m e"
  by (simp add: Eeprom_write_stores_def Let_def eraseMarkerByte_def EEPROM_put_ulong_def)

lemma telegraph_bytes: "settings_bytes (demo_settings TELEGRAPH 80 5) =
  [80, 80, 80, 80, 80, 80, 80, 80, 80, 80, 80, 80, 80, 1, 10, 5,5,5,5,5,5,5,5,5,5,5,5,5]"
  by (simp add: settings_bytes_def demo_settings_def TELEGRAPH_def eval_nat_numeral)

lemma telegraph_free: "payload_marker_free (settings_bytes (demo_settings TELEGRAPH 80 5))"
  unfolding telegraph_bytes payload_marker_free_def
  by (simp add: upt_conv_Cons bytes_ulong_def DATA_MARKER_def)

lemma demo_write: "fst (Eeprom_write SIZE_OF_SETTINGS_STRUCT (settings_bytes (demo_settings SHORT_DELAY 60 7)) boot_mem boot_store)
    = (demo_mem, boot_store)"
  by (simp add: first_write_in_place boot_store_def boot_mem_def get_put_ulong_same demo_mem_def eraseMarkerByte_def)

lemma demo_mem_0: "EEPROM_get_ulong demo_mem 0 = DATA_MARKER"
  by (simp add: demo_mem_def get_ulong_put_bytes_outside get_put_ulong_same)

lemma demo_mem_single: "no_live_marker_except demo_mem 1024 0"
proof -
  have t: "write_target SIZE_OF_SETTINGS_STRUCT boot_mem boot_store = 0"
    by (simp add: write_target_def boot_store_def boot_mem_def get_put_ulong_same)
  have "no_live_marker_except (fst (fst (Eeprom_write SIZE_OF_SETTINGS_STRUCT
            (settings_bytes (demo_settings SHORT_DELAY 60 7)) boot_mem boot_store))) 1024
          (unat (write_target SIZE_OF_SETTINGS_STRUCT boot_mem boot_store))"
    by (rule write_single_marker)
       (simp_all add: boot_store_def SIZE_OF_SETTINGS_STRUCT_def demo_bytes demo_free[unfolded demo_bytes]
          boot_mem_no_marker)
  then show ?thesis unfolding t demo_write by simp
qed

section \<open>The settings store\<close>

text \<open>
  C3. Claim: for every write after the first the store computes
  \<open>next = cursor + markerSize + recordSize\<close> and wraps to address 0 exactly when
  \<open>next + markerSize + recordSize > capacity\<close>, so that no record runs past the end of
  the memory; with capacity 512, marker size 4 and record size 16 the first write lands
  at 0, the second at 20, and after 26 writes the cursor is back at 0.

  \<open>write\<close> wraps when \<open>next > capacity - 1\<close>: it compares the start of the slot, not
  its end, with the capacity. In the scenario of the claim the first write lands at 0
  and the second at 20, but the 26th lands at 500, where marker and record take the
  addresses 500 to 519 of a memory of 512 bytes; the cursor is back at 0 only after the
  27th write.
\<close>

theorem write_wraps_one_slot_late:
  "unat (eeprom_currentAddress (snd (write_all 16 (replicate 1 rec16) (Eeprom_new 16 blank_eeprom 512)))) = 0
   \<and> unat (eeprom_currentAddress (snd (write_all 16 (replicate 2 rec16) (Eeprom_new 16 blank_eeprom 512)))) = 20
   \<and> unat (eeprom_currentAddress (snd (write_all 16 (replicate 26 rec16) (Eeprom_new 16 blank_eeprom 512)))) = 500
   \<and> unat (eeprom_currentAddress (snd (write_all 16 (replicate 27 rec16) (Eeprom_new 16 blank_eeprom 512)))) = 0
   \<and> 500 + unat SIZE_OF_DATA_MARKER + length rec16 = 520"
proof -
  let ?st0 = "Eeprom_new 16 blank_eeprom 512"
  let ?m1 = "EEPROM_put_bytes (EEPROM_put_ulong (EEPROM_put_ulong
               (EEPROM_put_ulong blank_eeprom 0 EMPTY_MARKER) 0 ERASE_MARKER) 0 DATA_MARKER) 4 rec16"
  let ?e1 = "\<lparr>eeprom_currentAddress = 0, eeprom_sizeInBytes = 512, blocked = False\<rparr>"
  have first: "fst (Eeprom_write 16 rec16 (fst ?st0) (snd ?st0)) = (?m1, ?e1)"
    by (simp add: Eeprom_new_blank first_write_in_place get_put_ulong_same eraseMarkerByte_def)
  have step: "write_all 16 (rec16 # rs) ?st0 = write_all 16 rs (?m1, ?e1)" for rs
    by (simp add: first)
  have live: "EEPROM_get_ulong ?m1 (unat (eeprom_currentAddress ?e1)) = DATA_MARKER"
    by (simp add: get_ulong_put_bytes_outside get_put_ulong_same)
  have adv: "unat (eeprom_currentAddress (snd (write_all 16 (replicate n rec16) (?m1, ?e1)))) = n * 20
    \<and> \<not> blocked (snd (write_all 16 (replicate n rec16) (?m1, ?e1)))
    \<and> eeprom_sizeInBytes (snd (write_all 16 (replicate n rec16) (?m1, ?e1))) = 512
    \<and> EEPROM_get_ulong (fst (write_all 16 (replicate n rec16) (?m1, ?e1))) (n * 20) = DATA_MARKER"
    if n: "n * 20 < 512" for n
  proof -
    have a: "\<not> blocked ?e1" by simp
    have b: "unat (eeprom_currentAddress ?e1) + length (replicate n rec16) * (unat (16::u16) + 4)
          < unat (eeprom_sizeInBytes ?e1)" using n by simp
    have c: "unat (eeprom_sizeInBytes ?e1) \<le> 65532" by simp
    from write_all_advance[OF a live b c] show ?thesis by simp
  qed
  have r1: "replicate 1 rec16 = rec16 # replicate 0 rec16" by simp
  have r2: "replicate 2 rec16 = rec16 # replicate 1 rec16" by (simp add: numeral_2_eq_2)
  have r26: "replicate 26 rec16 = rec16 # replicate 25 rec16"
  proof -
    have "replicate 26 rec16 = replicate (Suc 25) rec16" by simp
    then show ?thesis by (simp only: replicate_Suc)
  qed
  have r27: "replicate 27 rec16 = rec16 # (replicate 25 rec16 @ [rec16])"
  proof -
    have "replicate 27 rec16 = replicate (Suc 25 + 1) rec16" by simp
    then show ?thesis by (simp only: replicate_add replicate_Suc replicate_0 One_nat_def append_Cons)
  qed
  have c1: "unat (eeprom_currentAddress (snd (write_all 16 (replicate 1 rec16) ?st0))) = 0"
    unfolding r1 step by simp
  have c2: "unat (eeprom_currentAddress (snd (write_all 16 (replicate 2 rec16) ?st0))) = 20"
    unfolding r2 step using adv[of 1] by simp
  have c26: "unat (eeprom_currentAddress (snd (write_all 16 (replicate 26 rec16) ?st0))) = 500"
    unfolding r26 step using adv[of 25] by simp
  obtain m25 e25 where st25: "write_all 16 (replicate 25 rec16) (?m1, ?e1) = (m25, e25)"
    by (cases "write_all 16 (replicate 25 rec16) (?m1, ?e1)")
  have e25: "unat (eeprom_currentAddress e25) = 500" "\<not> blocked e25" "eeprom_sizeInBytes e25 = 512"
     "EEPROM_get_ulong m25 500 = DATA_MARKER"
    using adv[of 25] st25 by simp_all
  have cur: "eeprom_currentAddress e25 = 500"
    using e25(1) by (simp add: word_unat_eq_iff)
  have "write_target 16 m25 e25 = 0"
    using e25 cur markers_distinct by (simp add: write_target_def SIZE_OF_DATA_MARKER_def)
  then have c27: "unat (eeprom_currentAddress (snd (write_all 16 (replicate 27 rec16) ?st0))) = 0"
    unfolding r27 step write_all_append st25 using e25(2) by (simp add: Eeprom_write_unblocked)
  show ?thesis
    using c1 c2 c26 c27 by (simp add: SIZE_OF_DATA_MARKER_def rec16_def)
qed

text \<open>
  C2, as amended. The stores of \<open>write\<close>, carried out in order, give the memory
  \<open>write\<close> returns, and the first of them erases the marker at the old cursor. After a
  completed \<open>write\<close> of a payload that has no \<open>DATA_MARKER\<close> word at a marker-aligned
  offset, on a store that is not blocked, whose cursor and record size are multiples of 4,
  whose record and marker fit the memory, and whose memory held a live marker at no address
  but the cursor, at most one marker-aligned address of the memory holds \<open>DATA_MARKER\<close>;
  and if execution stops after the first store of \<open>write\<close> (the old marker erased, the
  new one not yet written), the next \<open>init\<close> finds no marker and \<open>read\<close> returns \<open>-1\<close>.
\<close>

theorem write_keeps_one_live_marker:
  assumes "\<not> blocked e"
      and "unat (eeprom_currentAddress e) mod 4 = 0" and "unat sz mod 4 = 0"
      and "length bs = unat sz" and "unat sz + 4 \<le> unat (eeprom_sizeInBytes e)"
      and "payload_marker_free bs"
      and "no_live_marker_except m (unat (eeprom_sizeInBytes e)) (unat (eeprom_currentAddress e))"
  shows "apply_stores m (Eeprom_write_stores sz bs m e) = fst (fst (Eeprom_write sz bs m e))
       \<and> at_most_one_live_marker (fst (fst (Eeprom_write sz bs m e))) (unat (eeprom_sizeInBytes e))
       \<and> Eeprom_read sz
            (fst (Eeprom_new sz (apply_stores m (take 1 (Eeprom_write_stores sz bs m e))) (eeprom_sizeInBytes e)))
            (snd (Eeprom_new sz (apply_stores m (take 1 (Eeprom_write_stores sz bs m e))) (eeprom_sizeInBytes e)))
           = (- 1, None)"
proof (intro conjI)
  show "apply_stores m (Eeprom_write_stores sz bs m e) = fst (fst (Eeprom_write sz bs m e))"
    by (rule write_stores_all)
  have "no_live_marker_except (fst (fst (Eeprom_write sz bs m e))) (unat (eeprom_sizeInBytes e))
          (unat (write_target sz m e))"
    using assms by (intro write_single_marker)
  then show "at_most_one_live_marker (fst (fst (Eeprom_write sz bs m e))) (unat (eeprom_sizeInBytes e))"
    unfolding no_live_marker_except_def at_most_one_live_marker_def by blast
  have u4: "unat (sz + 4) = unat sz + 4"
    using assms(5) unat_u16_bound[of "eeprom_sizeInBytes e"] by (simp add: unat_word_ariths)
  have "\<not> sz > eeprom_sizeInBytes e"
    using assms(5) by (simp add: word_less_nat_alt)
  then show "Eeprom_read sz
            (fst (Eeprom_new sz (apply_stores m (take 1 (Eeprom_write_stores sz bs m e))) (eeprom_sizeInBytes e)))
            (snd (Eeprom_new sz (apply_stores m (take 1 (Eeprom_write_stores sz bs m e))) (eeprom_sizeInBytes e)))
           = (- 1, None)"
    unfolding write_stores_crash_after_erase[OF assms(1)]
    using reboot_after_erase[OF assms(2,3,5,7)]
    by (simp add: Eeprom_read_def get_put_ulong_same markers_distinct)
qed

text \<open>
  The amended C2 at a store that holds a record: the memory after the first write on the
  first-boot store has its one live marker at the cursor 0, and the write of a second,
  marker-free settings value advances the cursor to 32.
\<close>

theorem write_keeps_one_live_marker_witness:
  "write_all SIZE_OF_SETTINGS_STRUCT [settings_bytes (demo_settings SHORT_DELAY 60 7)]
       (Eeprom_new SIZE_OF_SETTINGS_STRUCT blank_eeprom 1024) = (demo_mem, boot_store)
   \<and> live_marker_at demo_mem (unat (eeprom_currentAddress boot_store))
   \<and> payload_marker_free (settings_bytes (demo_settings TELEGRAPH 80 5))
   \<and> no_live_marker_except demo_mem 1024 0
   \<and> unat (eeprom_currentAddress (snd (fst (Eeprom_write SIZE_OF_SETTINGS_STRUCT
              (settings_bytes (demo_settings TELEGRAPH 80 5)) demo_mem boot_store)))) = 32
   \<and> apply_stores demo_mem (Eeprom_write_stores SIZE_OF_SETTINGS_STRUCT
              (settings_bytes (demo_settings TELEGRAPH 80 5)) demo_mem boot_store)
         = fst (fst (Eeprom_write SIZE_OF_SETTINGS_STRUCT
              (settings_bytes (demo_settings TELEGRAPH 80 5)) demo_mem boot_store))
   \<and> at_most_one_live_marker
       (fst (fst (Eeprom_write SIZE_OF_SETTINGS_STRUCT (settings_bytes (demo_settings TELEGRAPH 80 5))
                    demo_mem boot_store))) 1024
   \<and> Eeprom_read SIZE_OF_SETTINGS_STRUCT
        (fst (Eeprom_new SIZE_OF_SETTINGS_STRUCT
               (apply_stores demo_mem (take 1 (Eeprom_write_stores SIZE_OF_SETTINGS_STRUCT
                  (settings_bytes (demo_settings TELEGRAPH 80 5)) demo_mem boot_store))) 1024))
        (snd (Eeprom_new SIZE_OF_SETTINGS_STRUCT
               (apply_stores demo_mem (take 1 (Eeprom_write_stores SIZE_OF_SETTINGS_STRUCT
                  (settings_bytes (demo_settings TELEGRAPH 80 5)) demo_mem boot_store))) 1024)) = (- 1, None)"
proof -
  let ?bs = "settings_bytes (demo_settings TELEGRAPH 80 5)"
  have len: "length ?bs = unat SIZE_OF_SETTINGS_STRUCT"
    by (simp add: telegraph_bytes SIZE_OF_SETTINGS_STRUCT_def)
  have a: "\<not> blocked boot_store" "unat (eeprom_currentAddress boot_store) mod 4 = 0"
    "unat SIZE_OF_SETTINGS_STRUCT mod 4 = 0"
    "unat SIZE_OF_SETTINGS_STRUCT + 4 \<le> unat (eeprom_sizeInBytes boot_store)"
    by (simp_all add: boot_store_def SIZE_OF_SETTINGS_STRUCT_def)
  have inv: "no_live_marker_except demo_mem (unat (eeprom_sizeInBytes boot_store))
               (unat (eeprom_currentAddress boot_store))"
    using demo_mem_single by (simp add: boot_store_def)
  note main = write_keeps_one_live_marker[OF a(1) a(2) a(3) len a(4) telegraph_free inv]
  have first: "write_all SIZE_OF_SETTINGS_STRUCT [settings_bytes (demo_settings SHORT_DELAY 60 7)]
       (Eeprom_new SIZE_OF_SETTINGS_STRUCT blank_eeprom 1024) = (demo_mem, boot_store)"
    by (simp add: boot_1024 demo_write)
  have live: "live_marker_at demo_mem (unat (eeprom_currentAddress boot_store))"
    by (simp add: live_marker_at_def boot_store_def demo_mem_0)
  have tgt: "write_target SIZE_OF_SETTINGS_STRUCT demo_mem boot_store = 32"
    using markers_distinct
    by (simp add: write_target_def boot_store_def demo_mem_0 SIZE_OF_SETTINGS_STRUCT_def SIZE_OF_DATA_MARKER_def)
  have cur: "unat (eeprom_currentAddress (snd (fst (Eeprom_write SIZE_OF_SETTINGS_STRUCT ?bs demo_mem boot_store)))) = 32"
    using a(1) by (simp add: Eeprom_write_unblocked tgt)
  have sz: "unat (eeprom_sizeInBytes boot_store) = 1024" "eeprom_sizeInBytes boot_store = 1024"
    by (simp_all add: boot_store_def)
  show ?thesis
    using main first live telegraph_free demo_mem_single cur unfolding sz
    by (intro conjI) simp_all
qed


text \<open>
  C2 as stated covers payloads whose bytes form the marker pattern; for those it fails.
  After the first write of \<open>sixes_settings\<close> on an erased EEPROM the addresses 0 and 8
  both hold \<open>DATA_MARKER\<close>; and when the next write stops right after erasing the
  marker at 0 (its first store), the scan of the next boot stops at address 8 and
  \<open>read\<close> succeeds (returns 28) with the bytes from address 12 on.
\<close>

theorem payload_with_marker_pattern_counterexample:
  "\<not> at_most_one_live_marker
       (fst (write_all SIZE_OF_SETTINGS_STRUCT [settings_bytes sixes_settings]
              (Eeprom_new SIZE_OF_SETTINGS_STRUCT blank_eeprom 1024))) 1024
   \<and> fst (Eeprom_read SIZE_OF_SETTINGS_STRUCT
            (fst (Eeprom_new SIZE_OF_SETTINGS_STRUCT (eraseMarkerByte sixes_mem boot_store) 1024))
            (snd (Eeprom_new SIZE_OF_SETTINGS_STRUCT (eraseMarkerByte sixes_mem boot_store) 1024))) = 28
   \<and> write_all SIZE_OF_SETTINGS_STRUCT [settings_bytes sixes_settings]
              (Eeprom_new SIZE_OF_SETTINGS_STRUCT blank_eeprom 1024) = (sixes_mem, boot_store)
   \<and> apply_stores sixes_mem (take 1 (Eeprom_write_stores SIZE_OF_SETTINGS_STRUCT
              (settings_bytes (demo_settings SHORT_DELAY 60 7)) sixes_mem boot_store))
         = eraseMarkerByte sixes_mem boot_store"
proof (intro conjI)
  show "apply_stores sixes_mem (take 1 (Eeprom_write_stores SIZE_OF_SETTINGS_STRUCT
              (settings_bytes (demo_settings SHORT_DELAY 60 7)) sixes_mem boot_store))
         = eraseMarkerByte sixes_mem boot_store"
    by (rule write_stores_crash_after_erase) (simp add: boot_store_def)
  have w: "write_all SIZE_OF_SETTINGS_STRUCT [settings_bytes sixes_settings]
              (Eeprom_new SIZE_OF_SETTINGS_STRUCT blank_eeprom 1024) = (sixes_mem, boot_store)"
    by (simp add: boot_1024 sixes_write)
  then show "write_all SIZE_OF_SETTINGS_STRUCT [settings_bytes sixes_settings]
              (Eeprom_new SIZE_OF_SETTINGS_STRUCT blank_eeprom 1024) = (sixes_mem, boot_store)" .
  have "live_marker_at sixes_mem 0" "live_marker_at sixes_mem 8"
    by (simp_all add: live_marker_at_def sixes_mem_0 sixes_mem_8)
  then have "\<not> at_most_one_live_marker sixes_mem 1024"
    unfolding at_most_one_live_marker_def
    by (metis zero_less_numeral zero_neq_numeral numeral_less_iff semiring_norm(76,77,78,79,80,81))
  then show "\<not> at_most_one_live_marker
       (fst (write_all SIZE_OF_SETTINGS_STRUCT [settings_bytes sixes_settings]
              (Eeprom_new SIZE_OF_SETTINGS_STRUCT blank_eeprom 1024))) 1024"
    unfolding w by simp
  let ?mc = "eraseMarkerByte sixes_mem boot_store"
  have c0: "EEPROM_get_ulong ?mc 0 \<noteq> DATA_MARKER"
    by (simp add: eraseMarkerByte_def boot_store_def get_put_ulong_same markers_distinct)
  have c4: "EEPROM_get_ulong ?mc 4 \<noteq> DATA_MARKER"
    by (simp add: eraseMarkerByte_def boot_store_def get_ulong_put_ulong_other sixes_mem_4)
  have c8: "EEPROM_get_ulong ?mc 8 = DATA_MARKER"
    by (simp add: eraseMarkerByte_def boot_store_def get_ulong_put_ulong_other sixes_mem_8)
  show "fst (Eeprom_read SIZE_OF_SETTINGS_STRUCT
            (fst (Eeprom_new SIZE_OF_SETTINGS_STRUCT ?mc 1024))
            (snd (Eeprom_new SIZE_OF_SETTINGS_STRUCT ?mc 1024))) = 28"
    unfolding Eeprom_new_found_8[OF c0 c4 c8]
    by (simp add: Eeprom_read_def c8 SIZE_OF_SETTINGS_STRUCT_def)
qed

text \<open>
  C1. Claim: for every valid settings value, \<open>write\<close> followed at once by \<open>read\<close>
  succeeds and returns the value written, at every reachable cursor position, also near
  the end of the memory.

  Lemma \<open>write_read_roundtrip\<close> shows this wherever marker and record end at or below
  the capacity. \<open>write\<close> however only keeps the start of a slot below the capacity, and
  \<open>read\<close> refuses a cursor whose record would pass it. On the 1024 bytes of the Nano:
  the first boot on an erased EEPROM and two writes, the first of \<open>sixes_settings\<close>,
  leave the erased marker at 0, the bytes \<open>0x66 0x66 0x66 0x66\<close> of the first record at
  address 8 and the live marker at 32. The scan of the next boot stops at address 8.
  The 31st write after that lands at 1000, its record runs to address 1031, and the
  \<open>read\<close> that follows returns \<open>-1\<close>.
\<close>

theorem write_then_read_fails_near_end:
  "let boot1 = Eeprom_new SIZE_OF_SETTINGS_STRUCT blank_eeprom 1024;
       used = write_all SIZE_OF_SETTINGS_STRUCT
                [settings_bytes sixes_settings, settings_bytes (demo_settings SHORT_DELAY 60 7)] boot1;
       boot2 = Eeprom_new SIZE_OF_SETTINGS_STRUCT (fst used) 1024;
       final = write_all SIZE_OF_SETTINGS_STRUCT
                 (replicate 31 (settings_bytes (demo_settings SHORT_DELAY 60 7))) boot2
   in unat (eeprom_currentAddress (snd used)) = 32
      \<and> unat (eeprom_currentAddress (snd boot2)) = 8
      \<and> unat (eeprom_currentAddress (snd final)) = 1000
      \<and> \<not> blocked (snd final)
      \<and> Eeprom_read SIZE_OF_SETTINGS_STRUCT (fst final) (snd final) = (- 1, None)"
proof -
  let ?r = "settings_bytes (demo_settings SHORT_DELAY 60 7)"
  let ?e8 = "\<lparr>eeprom_currentAddress = 8, eeprom_sizeInBytes = 1024, blocked = False\<rparr>"
  have used: "write_all SIZE_OF_SETTINGS_STRUCT [settings_bytes sixes_settings, ?r]
                (Eeprom_new SIZE_OF_SETTINGS_STRUCT blank_eeprom 1024)
              = (used_mem, \<lparr>eeprom_currentAddress = 32, eeprom_sizeInBytes = 1024, blocked = False\<rparr>)"
    by (simp add: boot_1024 sixes_write second_write)
  have boot2: "Eeprom_new SIZE_OF_SETTINGS_STRUCT used_mem 1024 = (used_mem, ?e8)"
    by (rule Eeprom_new_found_8[OF used_mem_reads])
  obtain mf ef where final: "write_all SIZE_OF_SETTINGS_STRUCT (replicate 31 ?r) (used_mem, ?e8) = (mf, ef)"
    by (cases "write_all SIZE_OF_SETTINGS_STRUCT (replicate 31 ?r) (used_mem, ?e8)")
  have a: "\<not> blocked ?e8" by simp
  have b: "EEPROM_get_ulong used_mem (unat (eeprom_currentAddress ?e8)) = DATA_MARKER"
    by (simp add: used_mem_reads)
  have c: "unat (eeprom_currentAddress ?e8) + length (replicate 31 ?r) * (unat SIZE_OF_SETTINGS_STRUCT + 4)
        < unat (eeprom_sizeInBytes ?e8)"
    by (simp add: SIZE_OF_SETTINGS_STRUCT_def)
  have d: "unat (eeprom_sizeInBytes ?e8) \<le> 65532" by simp
  have ef: "\<not> blocked ef" "eeprom_sizeInBytes ef = 1024" "unat (eeprom_currentAddress ef) = 1000"
    using write_all_advance[OF a b c d] final by (simp_all add: SIZE_OF_SETTINGS_STRUCT_def)
  have cur: "eeprom_currentAddress ef = 1000"
    using ef(3) by (simp add: word_unat_eq_iff)
  have rd: "Eeprom_read SIZE_OF_SETTINGS_STRUCT mf ef = (- 1, None)"
    using ef(1,2) cur by (simp add: Eeprom_read_def SIZE_OF_SETTINGS_STRUCT_def)
  show ?thesis
    unfolding Let_def used fst_conv snd_conv boot2 final
    using ef rd by simp
qed

section \<open>The encoder handler\<close>

text \<open>
  C4. Claim: in SetParameter mode the delay value of the active effect stays within
  \<open>[DELAY_TIME_MIN, delayTimeMax[e]]\<close> after every encoder event, clamped and never
  wrapped, also for effects with \<open>countDirection = LEFT\<close>.

  The handler does not do this. The counter-clockwise branch clamps only at
  \<open>DELAY_TIME_MIN\<close> and the clockwise branch only at \<open>delayTimeMax\<close>; with
  \<open>countDirection = LEFT\<close> the counter moves the other way and meets the bound its
  branch does not check. For wow-not-flutter (maximum 60): from 60 a counter-clockwise
  event gives 61, and from 7 a clockwise event gives 6. For reverb (maximum 255): from
  255 a counter-clockwise event wraps to 0 and lands on 7. And with
  \<open>countDirection = RIGHT\<close> and a maximum of 255 the test \<open>delayTime > delayTimeMax\<close>
  can never hold for a byte: for short delay a clockwise event at 255 wraps to 0.
\<close>

theorem rotate_leaves_delay_range:
  "map_option (\<lambda>s. delayTime (settings s) ! 9)
     (rotate_all (pwm_const 0) [DIR_CCW] (parameter_mode WOW_NOT_FLUTTER 60 7)) = Some 61
   \<and> map_option (\<lambda>s. delayTime (settings s) ! 9)
     (rotate_all (pwm_const 0) [DIR_CW] (parameter_mode WOW_NOT_FLUTTER 7 7)) = Some 6
   \<and> map_option (\<lambda>s. delayTime (settings s) ! 8)
     (rotate_all (pwm_const 0) [DIR_CCW] (parameter_mode REVERB 255 7)) = Some 7
   \<and> map_option (\<lambda>s. delayTime (settings s) ! 1)
     (rotate_all (pwm_const 0) [DIR_CW] (parameter_mode SHORT_DELAY 255 7)) = Some 0
   \<and> delayTimeMax (parameter_mode WOW_NOT_FLUTTER 60 7) ! 9 = 60
   \<and> countDirection (parameter_mode WOW_NOT_FLUTTER 60 7) = LEFT
   \<and> countDirection (parameter_mode SHORT_DELAY 255 7) = RIGHT
   \<and> DELAY_TIME_MIN = 7"
  by (simp add: rotate_def rotate_ccw_parameter_def rotate_cw_parameter_def state_defs cfg_defs Let_def)

text \<open>
  C5. Claim: the ratio index \<open>baseFactorIndex[effect]\<close> stays within
  \<open>[0, NR_OF_MULT_FACTORS - 1]\<close>, so every read of \<open>baseFactor\<close> in \<open>rotate\<close> and
  \<open>extClock\<close> is in bounds, also for effects with \<open>countDirection = LEFT\<close>.

  The handler does not do this. The counter-clockwise branch guards only the lower end;
  with \<open>countDirection = LEFT\<close> it increments. For telegraph, nine counter-clockwise
  events take the index from its initial value 7 to 16, and the next completed window
  of \<open>extClock\<close> reads \<open>baseFactor[16]\<close>; at index 15 with an external clock
  present the event itself reads \<open>baseFactor[16]\<close>.
\<close>

theorem rotate_left_direction_index_out_of_bounds:
  "map_option (\<lambda>s. baseFactorIndex (settings s) ! 10)
     (rotate_all (pwm_const 0)
        [DIR_CCW, DIR_CCW, DIR_CCW, DIR_CCW, DIR_CCW, DIR_CCW, DIR_CCW, DIR_CCW, DIR_CCW]
        (parameter_mode TELEGRAPH 60 7)) = Some 16
   \<and> rotate_all (pwm_const 0) [DIR_CCW]
       ((parameter_mode TELEGRAPH 60 15)\<lparr>useSymbolicTimeString := True\<rparr>) = None
   \<and> Option.bind
       (rotate_all (pwm_const 0)
          [DIR_CCW, DIR_CCW, DIR_CCW, DIR_CCW, DIR_CCW, DIR_CCW, DIR_CCW, DIR_CCW, DIR_CCW]
          (parameter_mode TELEGRAPH 60 7))
       (extClock_all (pwm_const 0) [500000, 1000000, 1500000, 2000000]) = None
   \<and> countDirection (parameter_mode TELEGRAPH 60 7) = LEFT
   \<and> NR_OF_MULT_FACTORS = 16"
  by (simp add: rotate_def rotate_ccw_parameter_def extClock_def state_defs cfg_defs Let_def
        word_less_nat_alt)

section \<open>The clock estimator\<close>

text \<open>
  C6. Claim: the estimator emits after accumulating exactly 3 pulse intervals, the
  estimate is the mean of the intervals of that window, three pulses 500 ms apart give
  500 ms, and the accumulator is then reset.

  The handler emits when \<open>irqCounter > NR_OF_CYCLES\<close>, that is at the fourth pulse, and
  divides the sum of four intervals by four. With the previous pulse at time 0 and pulses
  at 500000, 1000000 and 1500000 microseconds nothing is emitted (\<open>cycleTime\<close> is still 0,
  the counter is 3, the accumulator holds 1500000); the pulse at 2000000 emits 500000 and
  resets counter and accumulator.
\<close>

theorem extClock_emits_at_fourth_pulse:
  "map_option (\<lambda>s. (cycleTime s, irqCounter s, sumTime s, useSymbolicTimeString s))
     (extClock_all (pwm_const 0) [500000, 1000000, 1500000] (parameter_mode SHORT_DELAY 60 7))
     = Some (0, 3, 1500000, False)
   \<and> map_option (\<lambda>s. (cycleTime s, irqCounter s, sumTime s, useSymbolicTimeString s))
     (extClock_all (pwm_const 0) [500000, 1000000, 1500000, 2000000] (parameter_mode SHORT_DELAY 60 7))
     = Some (500000, 0, 0, True)"
  by (simp add: extClock_def state_defs cfg_defs Let_def)




text \<open>
  C10. Whenever \<open>extClock\<close> completes a window while fine tuning is off, it stores the
  tempo-derived value, clamped to \<open>[DELAY_TIME_MIN, delayTimeMax[effect]]\<close>, as the delay
  of the active effect: for every effect (no \<open>isChorusOrReverb\<close> guard) and in either
  mode (\<open>inSelectMode\<close> is not read). The hypotheses only say that this pulse completes
  the window, that the indices are in bounds and that the bounds are ordered.
\<close>

theorem extClock_overwrites_delay_of_every_effect:
  assumes "irqCounter s + 1 > NR_OF_CYCLES"
      and "\<not> fineTuneDelayTime s"
      and "effect_index (settings s) = Some i"
      and "length (delayTime (settings s)) = NR_OF_EFFECTS"
      and "unat (baseFactorIndex (settings s) ! i) < NR_OF_MULT_FACTORS"
      and "DELAY_TIME_MIN \<le> delayTimeMax s ! i"
  shows "\<exists>s'. extClock pwm now s = Some s'
           \<and> cycleTime s' = (sumTime s + (now - oldTime s)) div ucast (irqCounter s + 1)
           \<and> delayTime (settings s') ! i
               = max DELAY_TIME_MIN (min (delayTimeMax s ! i)
                   (pwm (unat (baseFactorIndex (settings s) ! i)) (cycleTime s')))
           \<and> DELAY_TIME_MIN \<le> delayTime (settings s') ! i
           \<and> delayTime (settings s') ! i \<le> delayTimeMax s ! i
           \<and> effect (settings s') = effect (settings s)
           \<and> inSelectMode s' = inSelectMode s"
proof -
  have i: "i < length (delayTime (settings s))"
    using assms(3,4) by (auto simp add: effect_index_def NR_OF_EFFECTS_def split: if_splits)
  show ?thesis
    using assms i
    by (auto simp add: extClock_def symbolicDelayTime_def Let_def max_def min_def)
qed

theorem extClock_overwrites_delay_of_every_effect_witness:
  "isChorusOrReverb (settings ((parameter_mode CHORUS 60 7)\<lparr>irqCounter := 3, inSelectMode := True\<rparr>))
   \<and> (\<exists>s'. extClock (pwm_const 200) 2000000 ((parameter_mode CHORUS 60 7)\<lparr>irqCounter := 3, inSelectMode := True\<rparr>) = Some s'
          \<and> delayTime (settings s') ! 6 = 200 \<and> inSelectMode s')"
  using extClock_overwrites_delay_of_every_effect[where s = "(parameter_mode CHORUS 60 7)\<lparr>irqCounter := 3, inSelectMode := True\<rparr>"
          and i = 6 and pwm = "pwm_const 200" and now = 2000000]
  by (auto simp add: state_defs cfg_defs)

section \<open>Deferred persistence\<close>

text \<open>
  While no notification comes within 10000 ms of the roll-over of \<open>millis()\<close>, the
  number of store writes of a trace is the one the scheduler of the specification makes.
\<close>

lemma run_events_refines_quiescence_spec:
  "no_rollover evs \<Longrightarrow> timer_state s pending \<Longrightarrow>
   snd (run_events evs (s, m, e)) = quiescence_spec pending evs"
proof (induction evs arbitrary: s m e pending)
  case Nil
  then show ?case by simp
next
  case (Cons ev evs)
  show ?case
  proof (cases ev)
    case (Dirty t)
    have nr: "unat t + 10000 < 2 ^ 32" "no_rollover evs"
      using Cons.prems(1) Dirty by simp_all
    have "unat (t + 10000) = unat t + 10000"
      using nr(1) by (simp add: unat_word_ariths)
    then have "timer_state (updateEepromTimer t s) (Some (unat t))"
      by (simp add: timer_state_def updateEepromTimer_def DELAY_TIME_BEFORE_WRITING_TO_EEPROM_IN_MS_def)
    from Cons.IH[OF nr(2) this] show ?thesis
      using Dirty by simp
  next
    case (Poll t)
    have nr: "no_rollover evs" using Cons.prems(1) Poll by simp
    show ?thesis
    proof (cases pending)
      case None
      then have clean: "\<not> writeToEeprom s" using Cons.prems(2) by (simp add: timer_state_def)
      then have "writeSettingsToEeprom t (s, m, e) = ((s, m, e), 0)"
        by (simp add: writeSettingsToEeprom_def)
      then show ?thesis
        using Cons.IH[OF nr Cons.prems(2), of m e] Poll None by (auto split: prod.splits)
    next
      case (Some d)
      then have pend: "writeToEeprom s" "unat (writeTimer s) = d + 10000"
        using Cons.prems(2) by (simp_all add: timer_state_def)
      show ?thesis
      proof (cases "unat t > d + 10000")
        case True
        then have fire: "t > writeTimer s" using pend(2) by (simp add: word_less_nat_alt)
        obtain m' e' where w: "fst (Eeprom_write SIZE_OF_SETTINGS_STRUCT (settings_bytes (settings s)) m e) = (m', e')"
          by (cases "fst (Eeprom_write SIZE_OF_SETTINGS_STRUCT (settings_bytes (settings s)) m e)")
        have step: "writeSettingsToEeprom t (s, m, e) = ((s\<lparr>writeToEeprom := False\<rparr>, m', e'), 1)"
          using pend(1) fire w by (simp add: writeSettingsToEeprom_def)
        have "timer_state (s\<lparr>writeToEeprom := False\<rparr>) None"
          by (simp add: timer_state_def)
        from Cons.IH[OF nr this, of m' e'] show ?thesis
          using Poll Some True step by (auto split: prod.splits)
      next
        case False
        then have "\<not> t > writeTimer s" using pend(2) by (simp add: word_less_nat_alt)
        then have step: "writeSettingsToEeprom t (s, m, e) = ((s, m, e), 0)"
          by (simp add: writeSettingsToEeprom_def)
        from Cons.IH[OF nr Cons.prems(2), of m e] show ?thesis
          using Poll Some False step by (auto split: prod.splits)
      qed
    qed
  qed
qed

lemma poll_without_dirty:
  "\<not> writeToEeprom s \<Longrightarrow> writeSettingsToEeprom now (s, m, e) = ((s, m, e), 0)"
  by (simp add: writeSettingsToEeprom_def)

lemma poll_after_dirty:
  assumes "unat t + 10000 < 2 ^ 32"
  shows "snd (writeSettingsToEeprom now (updateEepromTimer t s, m, e)) = (if unat now > unat t + 10000 then 1 else 0)"
    and "writeToEeprom (fst (fst (writeSettingsToEeprom now (updateEepromTimer t s, m, e)))) = (\<not> unat now > unat t + 10000)"
proof -
  have "unat (t + 10000) = unat t + 10000"
    using assms by (simp add: unat_word_ariths)
  then show "snd (writeSettingsToEeprom now (updateEepromTimer t s, m, e)) = (if unat now > unat t + 10000 then 1 else 0)"
    and "writeToEeprom (fst (fst (writeSettingsToEeprom now (updateEepromTimer t s, m, e)))) = (\<not> unat now > unat t + 10000)"
    by (simp_all add: writeSettingsToEeprom_def updateEepromTimer_def
        DELAY_TIME_BEFORE_WRITING_TO_EEPROM_IN_MS_def word_less_nat_alt)
qed

text \<open>
  C8. Claim: K dirty notifications within the 10000 ms window of one another cause
  exactly one store write, K notifications spaced beyond the window cause K writes, and
  a write happens only after a full window without a notification.

  Lemma \<open>run_events_refines_quiescence_spec\<close> shows that the program does what the
  specification's scheduler does while \<open>millis() + 10000\<close> does not pass \<open>2^32\<close>.
  The deadline is an absolute 32-bit time
  compared with \<open>millis() > writeTimer\<close>, so near the roll-over of \<open>millis()\<close> the rule
  breaks: a notification at 4294962296 sets the deadline 5000, and the poll one
  millisecond later writes; three notifications 2 ms apart, each followed by a poll,
  cause three writes; and after a notification at 4294957295 the deadline is 4294967295,
  which no \<open>millis()\<close> exceeds, so no poll ever writes.
\<close>

theorem eeprom_timer_fails_at_millis_rollover:
  "snd (run_events [Dirty 4294962296, Poll 4294962297] scheduler_start) = 1
   \<and> snd (run_events [Dirty 4294962296, Poll 4294962297, Dirty 4294962298, Poll 4294962299,
                       Dirty 4294962300, Poll 4294962301] scheduler_start) = 3
   \<and> snd (run_events [Dirty 4294957295, Poll now] scheduler_start) = 0"
  by (simp add: scheduler_start_def writeSettingsToEeprom_def updateEepromTimer_def
        DELAY_TIME_BEFORE_WRITING_TO_EEPROM_IN_MS_def u32_max split: prod.splits)

section \<open>Loading the settings at boot\<close>

text \<open>
  C9. Claim: when a loaded settings record holds a field that violates its invariant, the
  loading caller substitutes a default for that field and schedules a re-persist, so the
  in-memory settings never start out violating the invariant. \<open>setup\<close> does neither: it
  ignores the result of \<open>read\<close> and checks no field. A stored record whose delays are all
  200, with \<open>SHORT_DELAY\<close> as the current effect, is loaded as it is: the delay of
  wow-not-flutter is 200 with a maximum of 60, the invariant is violated, \<open>writeToEeprom\<close>
  is false, the dirty check of \<open>loop\<close> schedules nothing and the clamp in \<open>loop\<close> changes
  nothing. With \<open>DECELERATOR\<close> as the current effect the clamp brings the decelerator's
  200 down to 100, and the delay of wow-not-flutter still is 200. A stored effect index of
  13 makes \<open>setup\<close> itself index \<open>delayTime\<close> out of bounds.
\<close>

theorem setup_loads_stored_fields_unchecked:
  "map_option (\<lambda>r. (delayTime (settings (snd r)) ! 9, delayTimeMax (snd r) ! 9,
                     settings_invariant (settings (snd r)) (delayTimeMax (snd r)),
                     writeToEeprom (snd r)))
     (setup_settings
        (fst (fst (Eeprom_write SIZE_OF_SETTINGS_STRUCT (settings_bytes (demo_settings SHORT_DELAY 200 7))
                     boot_mem boot_store)))
        1024 initial_globals) = Some (200, 60, False, False)
   \<and> Option.bind
       (setup_settings
          (fst (fst (Eeprom_write SIZE_OF_SETTINGS_STRUCT (settings_bytes (demo_settings SHORT_DELAY 200 7))
                       boot_mem boot_store)))
          1024 initial_globals)
       (\<lambda>r. loop_dirtyCheck now (snd r))
     = map_option snd
       (setup_settings
          (fst (fst (Eeprom_write SIZE_OF_SETTINGS_STRUCT (settings_bytes (demo_settings SHORT_DELAY 200 7))
                       boot_mem boot_store)))
          1024 initial_globals)
   \<and> map_option (\<lambda>r. loop_clampDecelerator (snd r))
       (setup_settings
          (fst (fst (Eeprom_write SIZE_OF_SETTINGS_STRUCT (settings_bytes (demo_settings SHORT_DELAY 200 7))
                       boot_mem boot_store)))
          1024 initial_globals)
     = map_option snd
       (setup_settings
          (fst (fst (Eeprom_write SIZE_OF_SETTINGS_STRUCT (settings_bytes (demo_settings SHORT_DELAY 200 7))
                       boot_mem boot_store)))
          1024 initial_globals)
   \<and> map_option (\<lambda>r. (delayTime (settings (loop_clampDecelerator (snd r))) ! 0,
                     delayTime (settings (loop_clampDecelerator (snd r))) ! 9,
                     settings_invariant (settings (loop_clampDecelerator (snd r)))
                       (delayTimeMax (loop_clampDecelerator (snd r)))))
       (setup_settings
          (fst (fst (Eeprom_write SIZE_OF_SETTINGS_STRUCT (settings_bytes (demo_settings DECELERATOR 200 7))
                       boot_mem boot_store)))
          1024 initial_globals) = Some (100, 200, False)
   \<and> setup_settings
        (fst (fst (Eeprom_write SIZE_OF_SETTINGS_STRUCT (settings_bytes (demo_settings 13 60 7))
                     boot_mem boot_store)))
        1024 initial_globals = None
   \<and> Eeprom_new SIZE_OF_SETTINGS_STRUCT blank_eeprom 1024 = (boot_mem, boot_store)"
proof -
  have vl: "valid_layout (demo_settings eff d k)" for eff d k
    by (simp add: valid_layout_def demo_settings_def NR_OF_EFFECTS_def)
  have len: "length (settings_bytes (demo_settings eff d k)) = 28" for eff d k
    using vl by (rule settings_bytes_length)
  note st = stored_record_found[OF len]
  have su: "setup_settings
            (fst (fst (Eeprom_write SIZE_OF_SETTINGS_STRUCT (settings_bytes (demo_settings SHORT_DELAY 200 7)) boot_mem boot_store)))
            1024 initial_globals
        = Some ((EEPROM_put_bytes (EEPROM_put_ulong (EEPROM_put_ulong boot_mem 0 ERASE_MARKER) 0 DATA_MARKER) 4
                   (settings_bytes (demo_settings SHORT_DELAY 200 7)), boot_store),
                initial_globals\<lparr>settings := demo_settings SHORT_DELAY 200 7, delayTimeMax := setup_delayTimeMax,
                  oldDelayTime := delayTime (demo_settings SHORT_DELAY 200 7), oldEffect := SHORT_DELAY\<rparr>)"
    unfolding setup_settings_def st(1) fst_conv st(2) Let_def snd_conv st(3) option.case
      settings_roundtrip[OF vl]
    by (simp add: demo_settings_def effect_index_def cfg_defs replicate_13)
  have dec: "setup_settings
            (fst (fst (Eeprom_write SIZE_OF_SETTINGS_STRUCT (settings_bytes (demo_settings DECELERATOR 200 7)) boot_mem boot_store)))
            1024 initial_globals
        = Some ((EEPROM_put_bytes (EEPROM_put_ulong (EEPROM_put_ulong boot_mem 0 ERASE_MARKER) 0 DATA_MARKER) 4
                   (settings_bytes (demo_settings DECELERATOR 200 7)), boot_store),
                initial_globals\<lparr>settings := demo_settings DECELERATOR 200 7, delayTimeMax := setup_delayTimeMax,
                  oldDelayTime := delayTime (demo_settings DECELERATOR 200 7), oldEffect := DECELERATOR\<rparr>)"
    unfolding setup_settings_def st(1) fst_conv st(2) Let_def snd_conv st(3) option.case
      settings_roundtrip[OF vl]
    by (simp add: demo_settings_def effect_index_def cfg_defs replicate_13)
  have bad: "setup_settings
            (fst (fst (Eeprom_write SIZE_OF_SETTINGS_STRUCT (settings_bytes (demo_settings 13 60 7)) boot_mem boot_store)))
            1024 initial_globals = None"
    unfolding setup_settings_def st(1) fst_conv st(2) Let_def snd_conv st(3) option.case
      settings_roundtrip[OF vl]
    by (simp add: demo_settings_def effect_index_def cfg_defs replicate_13)
  show ?thesis
    unfolding su dec bad boot_1024
    by (simp add: settings_invariant_def demo_settings_def setup_delayTimeMax_def initial_globals_def
          loop_dirtyCheck_def loop_clampDecelerator_def DECELERATOR_UPDATE_TIME_MAX_def
          DECELERATOR_UPDATE_TIME_MIN_def effect_index_def cfg_defs replicate_13)
qed

end
